theory Spec2Isabelle
  imports Complex_Main "HOL-Library.Log_Nat" "HOL-Library.Multiset" "HOL-Library.List_Lexorder"
    "HOL-Library.Char_ord"
begin

section \<open>Python values used by the service\<close>

text \<open>
  A Python \<open>float\<close> is an IEEE 754 binary64 number. It is modelled by its value: a
  finite float is the rational number it denotes, and the three special values are
  constructors of their own. Every arithmetic operation rounds its exact result to the
  nearest binary64 number, a tie going to the even significand, and overflows to an
  infinity, as the hardware does (\<open>double_of\<close> below). The sign of zero is not kept:
  no comparison in the service can tell the two zeros apart, and every division by a
  zero raises before its sign could matter.
\<close>

datatype pyfloat = Finite rat | PInf | NInf | NaN

datatype py_error =
    ZeroDivisionError
  | AttributeError string
  | ValidationError string
  | HTTPException nat string
  | HTTPStatusError nat string
  | RequestError
  | OtherError

text \<open>Comparisons follow IEEE 754 as Python does: every ordered comparison with NaN is false.\<close>

definition feq :: "pyfloat \<Rightarrow> pyfloat \<Rightarrow> bool" where
  "feq a b = (a = b \<and> a \<noteq> NaN)"

definition fne :: "pyfloat \<Rightarrow> pyfloat \<Rightarrow> bool" where
  "fne a b = (\<not> feq a b)"

fun flt :: "pyfloat \<Rightarrow> pyfloat \<Rightarrow> bool" where
  "flt (Finite a) (Finite b) = (a < b)"
| "flt (Finite a) PInf = True"
| "flt NInf (Finite b) = True"
| "flt NInf PInf = True"
| "flt _ _ = False"

definition fgt :: "pyfloat \<Rightarrow> pyfloat \<Rightarrow> bool" where
  "fgt a b = flt b a"

definition fle :: "pyfloat \<Rightarrow> pyfloat \<Rightarrow> bool" where
  "fle a b = (flt a b \<or> feq a b)"

definition fge :: "pyfloat \<Rightarrow> pyfloat \<Rightarrow> bool" where
  "fge a b = fle b a"

definition isinf :: "pyfloat \<Rightarrow> bool" where
  "isinf x = (x = PInf \<or> x = NInf)"

definition isnan :: "pyfloat \<Rightarrow> bool" where
  "isnan x = (x = NaN)"

text \<open>Rounding to the nearest integer, a tie going to the even one.\<close>

definition round_half_even :: "rat \<Rightarrow> int" where
  "round_half_even x =
     (let f = \<lfloor>x\<rfloor>; d = x - of_int f
      in if d < 1 / 2 then f
         else if 1 / 2 < d then f + 1
         else if even f then f else f + 1)"

text \<open>Powers of two with an integer exponent.\<close>

definition pow2 :: "int \<Rightarrow> rat" where
  "pow2 k = (if 0 \<le> k then 2 ^ nat k else 1 / 2 ^ nat (- k))"

text \<open>
  The binary exponent of a positive rational \<open>a\<close>, the \<open>k\<close> with \<open>2\<^sup>k \<le> a < 2\<^sup>k\<^sup>+\<^sup>1\<close>. The
  bit lengths of numerator and denominator give it up to one.
\<close>

definition ilog2 :: "rat \<Rightarrow> int" where
  "ilog2 a =
     (let k = bitlen (fst (quotient_of a)) - bitlen (snd (quotient_of a))
      in if pow2 k \<le> a then k else k - 1)"

text \<open>
  The binary64 number nearest to a rational: 53 significant bits, the least exponent
  of the last bit being \<open>-1074\<close> (subnormal numbers), a tie going to the even
  significand, and an infinity from \<open>2\<^sup>1\<^sup>0\<^sup>2\<^sup>4\<close> on. A float literal of the source is
  \<open>double_of\<close> of its decimal.
\<close>

definition double_of :: "rat \<Rightarrow> pyfloat" where
  "double_of x =
     (if x = 0 then Finite 0
      else
        let a = \<bar>x\<bar>;
            e = max (ilog2 a - 52) (- 1074);
            v = of_int (round_half_even (a / pow2 e)) * pow2 e
        in if pow2 1024 \<le> v then (if 0 < x then PInf else NInf)
           else Finite (if 0 < x then v else - v))"

fun fsub :: "pyfloat \<Rightarrow> pyfloat \<Rightarrow> pyfloat" where
  "fsub NaN _ = NaN"
| "fsub _ NaN = NaN"
| "fsub (Finite a) (Finite b) = double_of (a - b)"
| "fsub (Finite a) PInf = NInf"
| "fsub (Finite a) NInf = PInf"
| "fsub PInf PInf = NaN"
| "fsub NInf NInf = NaN"
| "fsub PInf _ = PInf"
| "fsub NInf _ = NInf"

text \<open>The sign of an infinite product or quotient; a zero factor gives NaN.\<close>

definition signed_inf :: "rat \<Rightarrow> pyfloat" where
  "signed_inf s = (if 0 < s then PInf else if s < 0 then NInf else NaN)"

fun fmul :: "pyfloat \<Rightarrow> pyfloat \<Rightarrow> pyfloat" where
  "fmul NaN _ = NaN"
| "fmul _ NaN = NaN"
| "fmul (Finite a) (Finite b) = double_of (a * b)"
| "fmul (Finite a) PInf = signed_inf a"
| "fmul (Finite a) NInf = signed_inf (- a)"
| "fmul PInf (Finite b) = signed_inf b"
| "fmul NInf (Finite b) = signed_inf (- b)"
| "fmul PInf PInf = PInf"
| "fmul NInf NInf = PInf"
| "fmul PInf NInf = NInf"
| "fmul NInf PInf = NInf"

text \<open>
  Python's \<open>/\<close> on floats raises \<open>ZeroDivisionError\<close> whenever the divisor compares
  equal to zero, whatever the dividend; otherwise it is the IEEE quotient, which
  overflows to an infinity without raising.
\<close>

fun fquot :: "pyfloat \<Rightarrow> pyfloat \<Rightarrow> pyfloat" where
  "fquot NaN _ = NaN"
| "fquot _ NaN = NaN"
| "fquot (Finite a) (Finite b) = double_of (a / b)"
| "fquot (Finite a) _ = Finite 0"
| "fquot PInf (Finite b) = signed_inf b"
| "fquot NInf (Finite b) = signed_inf (- b)"
| "fquot _ _ = NaN"

definition fdiv :: "pyfloat \<Rightarrow> pyfloat \<Rightarrow> py_error + pyfloat" where
  "fdiv a b = (if feq b (Finite 0) then Inl ZeroDivisionError else Inr (fquot a b))"

text \<open>
  \<open>round(x, n)\<close> on a float, for \<open>n \<ge> 0\<close>: the exact value of \<open>x\<close> is rounded to the
  nearest multiple of \<open>10\<^sup>-\<^sup>n\<close>, a tie going to the even neighbour, and the decimal
  obtained is read back as a float, that is, rounded to the nearest binary64 number;
  infinities and NaN are returned unchanged.
\<close>

definition round_rat :: "rat \<Rightarrow> nat \<Rightarrow> rat" where
  "round_rat x n = of_int (round_half_even (x * 10 ^ n)) / 10 ^ n"

fun py_round :: "pyfloat \<Rightarrow> nat \<Rightarrow> pyfloat" where
  "py_round (Finite x) n = double_of (round_rat x n)"
| "py_round x n = x"

section \<open>financials.py: growth rate and health assessment\<close>

text \<open>\<open>_calculate_growth_rate\<close> (financials.py, lines 26 to 35).\<close>

definition calculate_growth_rate ::
  "pyfloat option \<Rightarrow> pyfloat option \<Rightarrow> py_error + pyfloat option" where
  "calculate_growth_rate current_value previous_value =
     (case current_value of
        None \<Rightarrow> Inr None
      | Some c \<Rightarrow>
          (case previous_value of
             None \<Rightarrow> Inr None
           | Some p \<Rightarrow>
               if feq p (Finite 0) then
                 Inr (Some (if fgt c (Finite 0) then PInf
                            else if flt c (Finite 0) then NInf
                            else Finite 0))
               else
                 (case fdiv (fsub c p) p of
                    Inl e \<Rightarrow> Inl e
                  | Inr q \<Rightarrow> Inr (Some (py_round (fmul q (Finite 100)) 2)))))"

text \<open>
  The growth rule in the words of the specification (section 4.4): three cases for a
  zero base, selected by \<open>current > 0\<close>, \<open>current < 0\<close> and \<open>current == 0\<close>, and the
  rounded quotient otherwise.
\<close>

definition yoyGrowth_spec ::
  "pyfloat option \<Rightarrow> pyfloat option \<Rightarrow> py_error + pyfloat option" where
  "yoyGrowth_spec current previous =
     (case (current, previous) of
        (Some c, Some p) \<Rightarrow>
          if feq p (Finite 0) \<and> fgt c (Finite 0) then Inr (Some PInf)
          else if feq p (Finite 0) \<and> flt c (Finite 0) then Inr (Some NInf)
          else if feq p (Finite 0) \<and> feq c (Finite 0) then Inr (Some (Finite 0))
          else (case fdiv (fsub c p) p of
                  Inl e \<Rightarrow> Inl e
                | Inr q \<Rightarrow> Inr (Some (py_round (fmul q (Finite 100)) 2)))
      | _ \<Rightarrow> Inr None)"

text \<open>
  \<open>_assess_financial_health\<close> (financials.py, lines 37 to 78). The two counters are
  threaded through the four blocks in the order of the source.
\<close>

definition health_net_income :: "pyfloat option \<Rightarrow> int \<times> nat \<Rightarrow> int \<times> nat" where
  "health_net_income net_income st =
     (case net_income of
        None \<Rightarrow> st
      | Some x \<Rightarrow> (if fgt x (Finite 0) then fst st + 1 else fst st, snd st + 1))"

definition health_cash :: "pyfloat option \<Rightarrow> int \<times> nat \<Rightarrow> int \<times> nat" where
  "health_cash cash_from_operating_activities st =
     (case cash_from_operating_activities of
        None \<Rightarrow> st
      | Some x \<Rightarrow> (if fgt x (Finite 0) then fst st + 1 else fst st, snd st + 1))"

definition health_current_ratio :: "pyfloat option \<Rightarrow> int \<times> nat \<Rightarrow> int \<times> nat" where
  "health_current_ratio current_ratio st =
     (case current_ratio of
        None \<Rightarrow> st
      | Some x \<Rightarrow>
          if \<not> isinf x \<and> \<not> isnan x then
            (if fge x (Finite (3 / 2)) then fst st + 1
             else if flt x (Finite 1) then fst st - 1
             else fst st, snd st + 1)
          else st)"

definition health_debt_to_equity :: "pyfloat option \<Rightarrow> int \<times> nat \<Rightarrow> int \<times> nat" where
  "health_debt_to_equity debt_to_equity_ratio st =
     (case debt_to_equity_ratio of
        None \<Rightarrow> st
      | Some x \<Rightarrow>
          if \<not> isinf x \<and> \<not> isnan x then
            (if fle x (Finite 1) then fst st + 1
             else if fgt x (Finite 2) then fst st - 1
             else fst st, snd st + 1)
          else st)"

definition assess_financial_health ::
  "pyfloat option \<Rightarrow> pyfloat option \<Rightarrow> pyfloat option \<Rightarrow> pyfloat option \<Rightarrow> string option" where
  "assess_financial_health net_income cash_from_operating_activities current_ratio
       debt_to_equity_ratio =
     (if list_all (\<lambda>x. x = None)
           [net_income, cash_from_operating_activities, current_ratio, debt_to_equity_ratio]
      then None
      else
        let st = health_debt_to_equity debt_to_equity_ratio
                   (health_current_ratio current_ratio
                     (health_cash cash_from_operating_activities
                       (health_net_income net_income (0, 0))));
            score = fst st;
            num_factors_considered = snd st
        in if num_factors_considered = 0 then None
           else if 2 \<le> score then Some ''Strong''
           else if 0 \<le> score then Some ''Stable''
           else Some ''Concerning'')"

text \<open>
  The scoring rule in the words of the specification (section 4.5): each input
  contributes to the score on its own, and a ratio is usable only if it is finite.
\<close>

definition usable_ratio :: "pyfloat option \<Rightarrow> bool" where
  "usable_ratio r = (case r of Some (Finite x) \<Rightarrow> True | _ \<Rightarrow> False)"

definition factors_spec ::
  "pyfloat option \<Rightarrow> pyfloat option \<Rightarrow> pyfloat option \<Rightarrow> pyfloat option \<Rightarrow> nat" where
  "factors_spec ni cf cr de =
     (if ni \<noteq> None then 1 else 0) + (if cf \<noteq> None then 1 else 0)
     + (if usable_ratio cr then 1 else 0) + (if usable_ratio de then 1 else 0)"

definition positive_points :: "pyfloat option \<Rightarrow> int" where
  "positive_points v = (case v of Some x \<Rightarrow> if fgt x (Finite 0) then 1 else 0 | None \<Rightarrow> 0)"

definition current_ratio_points :: "pyfloat option \<Rightarrow> int" where
  "current_ratio_points cr =
     (case cr of
        Some (Finite x) \<Rightarrow> if 3 / 2 \<le> x then 1 else if x < 1 then - 1 else 0
      | _ \<Rightarrow> 0)"

definition debt_to_equity_points :: "pyfloat option \<Rightarrow> int" where
  "debt_to_equity_points de =
     (case de of
        Some (Finite x) \<Rightarrow> if x \<le> 1 then 1 else if 2 < x then - 1 else 0
      | _ \<Rightarrow> 0)"

definition score_spec ::
  "pyfloat option \<Rightarrow> pyfloat option \<Rightarrow> pyfloat option \<Rightarrow> pyfloat option \<Rightarrow> int" where
  "score_spec ni cf cr de =
     positive_points ni + positive_points cf + current_ratio_points cr
     + debt_to_equity_points de"

section \<open>metrics.py: the three classifiers\<close>

text \<open>\<open>_assess_valuation\<close> (metrics.py, lines 10 to 20).\<close>

definition assess_valuation :: "pyfloat option \<Rightarrow> string option" where
  "assess_valuation pe_ratio =
     (case pe_ratio of
        None \<Rightarrow> None
      | Some x \<Rightarrow>
          if flt x (Finite 15) then Some ''Potentially Undervalued''
          else if fle (Finite 15) x \<and> fle x (Finite 25) then Some ''Fairly Valued''
          else if fgt x (Finite 25) then Some ''Potentially Overvalued''
          else None)"

text \<open>\<open>_assess_profitability\<close> (metrics.py, lines 22 to 35).\<close>

definition assess_profitability :: "pyfloat option \<Rightarrow> string option" where
  "assess_profitability net_profit_margin =
     (case net_profit_margin of
        None \<Rightarrow> None
      | Some x \<Rightarrow>
          if fge x (Finite (20 / 100)) then Some ''High Profitability''
          else if fle (Finite (10 / 100)) x \<and> flt x (Finite (20 / 100))
            then Some ''Moderate Profitability''
          else if flt x (Finite (10 / 100)) \<and> fge x (Finite 0)
            then Some ''Low Profitability''
          else if flt x (Finite 0) then Some ''Unprofitable''
          else None)"

text \<open>\<open>_assess_liquidity\<close> (metrics.py, lines 37 to 47).\<close>

definition assess_liquidity :: "pyfloat option \<Rightarrow> string option" where
  "assess_liquidity current_ratio =
     (case current_ratio of
        None \<Rightarrow> None
      | Some x \<Rightarrow>
          if fge x (Finite 2) then Some ''Strong Liquidity''
          else if fle (Finite 1) x \<and> flt x (Finite 2) then Some ''Adequate Liquidity''
          else if flt x (Finite 1) then Some ''Weak Liquidity''
          else None)"

section \<open>Reported financials: upstream and output schemas\<close>

text \<open>
  The value of a raw item as Python sees it at run time. The upstream schema declares
  it \<open>Optional[float]\<close>; the resolver nevertheless tests \<open>isinstance(value, (int, float))\<close>,
  so the model keeps an integer and a non-numeric alternative as well.
\<close>

datatype pyval = VNone | VInt int | VFloat pyfloat | VStr string

record ReportItem =
  ri_concept :: string
  ri_unit :: string
  ri_label :: string
  ri_value :: pyval

record FinancialReportDetails =
  rep_bs :: "ReportItem list option"
  rep_ic :: "ReportItem list option"
  rep_cf :: "ReportItem list option"

text \<open>
  A raw filing. The schema declares the four dates and the report as required; the
  handler still guards against an absent end date and an absent report, so both are
  optional here and the guards are branches of the model.
\<close>

record FinancialFilingData =
  fd_accessNumber :: string
  fd_symbol :: string
  fd_cik :: string
  fd_year :: int
  fd_quarter :: int
  fd_form :: string
  fd_startDate :: "string option"
  fd_endDate :: "string option"
  fd_filedDate :: "string option"
  fd_acceptedDate :: "string option"
  fd_report :: "FinancialReportDetails option"

record FinnhubFinancialsReport =
  fr_cik :: string
  fr_data :: "FinancialFilingData list"
  fr_symbol :: string

record FinancialItemOut =
  fi_label :: string
  fi_value :: "pyfloat option"
  fi_unit :: "string option"

record IncomeStatementOut =
  is_revenue :: "FinancialItemOut option"
  is_cost_of_revenue :: "FinancialItemOut option"
  is_gross_profit :: "FinancialItemOut option"
  is_operating_expenses :: "FinancialItemOut option"
  is_operating_income :: "FinancialItemOut option"
  is_net_income :: "FinancialItemOut option"
  is_eps_basic :: "FinancialItemOut option"

record BalanceSheetOut =
  bs_cash_and_cash_equivalents :: "FinancialItemOut option"
  bs_marketable_securities :: "FinancialItemOut option"
  bs_accounts_receivable :: "FinancialItemOut option"
  bs_total_current_assets :: "FinancialItemOut option"
  bs_property_plant_equipment :: "FinancialItemOut option"
  bs_goodwill :: "FinancialItemOut option"
  bs_total_assets :: "FinancialItemOut option"
  bs_accounts_payable :: "FinancialItemOut option"
  bs_deferred_revenue :: "FinancialItemOut option"
  bs_total_current_liabilities :: "FinancialItemOut option"
  bs_long_term_debt :: "FinancialItemOut option"
  bs_total_liabilities :: "FinancialItemOut option"
  bs_total_equity :: "FinancialItemOut option"

record CashFlowStatementOut =
  cf_net_income :: "FinancialItemOut option"
  cf_depreciation_amortization :: "FinancialItemOut option"
  cf_changes_in_working_capital :: "FinancialItemOut option"
  cf_cash_from_operating_activities :: "FinancialItemOut option"
  cf_capital_expenditures :: "FinancialItemOut option"
  cf_cash_from_investing_activities :: "FinancialItemOut option"
  cf_dividends_paid :: "FinancialItemOut option"
  cf_cash_from_financing_activities :: "FinancialItemOut option"
  cf_net_increase_decrease_in_cash :: "FinancialItemOut option"

record CalculatedRatiosOut =
  cr_gross_margin :: "pyfloat option"
  cr_operating_margin :: "pyfloat option"
  cr_net_profit_margin :: "pyfloat option"
  cr_current_ratio :: "pyfloat option"
  cr_debt_to_equity_ratio :: "pyfloat option"

record FinancialFilingOut =
  fo_symbol :: string
  fo_access_number :: string
  fo_form_type :: string
  fo_year :: int
  fo_quarter :: int
  fo_start_date :: "string option"
  fo_end_date :: "string option"
  fo_filed_date :: "string option"
  fo_accepted_date :: "string option"
  fo_income_statement :: "IncomeStatementOut option"
  fo_balance_sheet :: "BalanceSheetOut option"
  fo_cash_flow_statement :: "CashFlowStatementOut option"
  fo_calculated_ratios :: "CalculatedRatiosOut option"
  fo_revenue_growth_yoy_percent :: "pyfloat option"
  fo_net_income_growth_yoy_percent :: "pyfloat option"
  fo_financial_health_status :: "string option"

record FinancialReportsOut =
  ro_symbol :: string
  ro_filings :: "FinancialFilingOut list"

section \<open>financials.py: concept lookup\<close>

text \<open>
  Line 22 and the construction on line 23: a float is kept, an integer is accepted and
  stored as the float of the same value, anything else becomes \<open>None\<close>.
\<close>

fun numeric_value :: "pyval \<Rightarrow> pyfloat option" where
  "numeric_value (VFloat x) = Some x"
| "numeric_value (VInt n) = Some (Finite (of_int n))"
| "numeric_value _ = None"

definition item_out :: "ReportItem \<Rightarrow> FinancialItemOut" where
  "item_out item =
     \<lparr>fi_label = ri_label item, fi_value = numeric_value (ri_value item),
      fi_unit = Some (ri_unit item)\<rparr>"

text \<open>The \<open>for\<close> loop of \<open>find_concept_value\<close> (lines 19 to 23).\<close>

fun find_concept_loop :: "ReportItem list \<Rightarrow> string \<Rightarrow> FinancialItemOut option" where
  "find_concept_loop [] c = None"
| "find_concept_loop (item # rest) c =
     (if ri_concept item = c then Some (item_out item) else find_concept_loop rest c)"

text \<open>
  \<open>find_concept_value\<close> (lines 16 to 24). \<open>if report_items:\<close> is false for \<open>None\<close> and
  for the empty list.
\<close>

definition find_concept_value :: "ReportItem list option \<Rightarrow> string \<Rightarrow> FinancialItemOut option" where
  "find_concept_value report_items c =
     (case report_items of
        None \<Rightarrow> None
      | Some items \<Rightarrow> if items = [] then None else find_concept_loop items c)"

text \<open>
  Concept resolution in the words of the specification (section 4.2): the candidates
  are tried in the given order, and for each the items are scanned in document order.
\<close>

fun resolve_spec :: "ReportItem list option \<Rightarrow> string list \<Rightarrow> FinancialItemOut option" where
  "resolve_spec items [] = None"
| "resolve_spec items (c # cs) =
     (case items of
        None \<Rightarrow> None
      | Some l \<Rightarrow>
          (case find (\<lambda>i. ri_concept i = c) l of
             Some i \<Rightarrow> Some (item_out i)
           | None \<Rightarrow> resolve_spec items cs))"

text \<open>\<open>x.value if x else None\<close>, as written after each lookup whose value is used.\<close>

definition item_value :: "FinancialItemOut option \<Rightarrow> pyfloat option" where
  "item_value x = (case x of None \<Rightarrow> None | Some i \<Rightarrow> fi_value i)"

definition truthy_items :: "ReportItem list option \<Rightarrow> bool" where
  "truthy_items xs = (case xs of None \<Rightarrow> False | Some l \<Rightarrow> l \<noteq> [])"

section \<open>financials.py: the per-filing blocks of the handler\<close>

text \<open>Lines 111 and 128 to 150: the income statement.\<close>

definition income_statement_block :: "ReportItem list option \<Rightarrow> IncomeStatementOut" where
  "income_statement_block ic =
     (if truthy_items ic then
        (let inc_revenue = find_concept_value ic ''us-gaap_Revenues'';
             inc_revenue = (if inc_revenue = None
                            then find_concept_value ic ''us-gaap_SalesRevenueNet''
                            else inc_revenue)
         in \<lparr>is_revenue = inc_revenue,
             is_cost_of_revenue = find_concept_value ic ''us-gaap_CostOfRevenue'',
             is_gross_profit = find_concept_value ic ''us-gaap_GrossProfit'',
             is_operating_expenses = None,
             is_operating_income = find_concept_value ic ''us-gaap_OperatingIncomeLoss'',
             is_net_income = find_concept_value ic ''us-gaap_NetIncomeLoss'',
             is_eps_basic = find_concept_value ic ''us-gaap_EarningsPerShareBasic''\<rparr>)
      else
        \<lparr>is_revenue = None, is_cost_of_revenue = None, is_gross_profit = None,
         is_operating_expenses = None, is_operating_income = None, is_net_income = None,
         is_eps_basic = None\<rparr>)"

text \<open>Lines 112 and 152 to 180: the balance sheet.\<close>

definition balance_sheet_block :: "ReportItem list option \<Rightarrow> BalanceSheetOut" where
  "balance_sheet_block bs =
     (if truthy_items bs then
        \<lparr>bs_cash_and_cash_equivalents =
           find_concept_value bs ''us-gaap_CashAndCashEquivalentsAtCarryingValue'',
         bs_marketable_securities = find_concept_value bs ''us-gaap_MarketableSecuritiesCurrent'',
         bs_accounts_receivable = find_concept_value bs ''us-gaap_AccountsReceivableNetCurrent'',
         bs_total_current_assets = find_concept_value bs ''us-gaap_AssetsCurrent'',
         bs_property_plant_equipment =
           find_concept_value bs ''us-gaap_PropertyPlantAndEquipmentNet'',
         bs_goodwill = None,
         bs_total_assets = find_concept_value bs ''us-gaap_Assets'',
         bs_accounts_payable = find_concept_value bs ''us-gaap_AccountsPayableCurrent'',
         bs_deferred_revenue = find_concept_value bs ''us-gaap_DeferredRevenueCurrent'',
         bs_total_current_liabilities = find_concept_value bs ''us-gaap_LiabilitiesCurrent'',
         bs_long_term_debt = find_concept_value bs ''us-gaap_LongTermDebt'',
         bs_total_liabilities = find_concept_value bs ''us-gaap_Liabilities'',
         bs_total_equity = find_concept_value bs ''us-gaap_StockholdersEquity''\<rparr>
      else
        \<lparr>bs_cash_and_cash_equivalents = None, bs_marketable_securities = None,
         bs_accounts_receivable = None, bs_total_current_assets = None,
         bs_property_plant_equipment = None, bs_goodwill = None, bs_total_assets = None,
         bs_accounts_payable = None, bs_deferred_revenue = None,
         bs_total_current_liabilities = None, bs_long_term_debt = None,
         bs_total_liabilities = None, bs_total_equity = None\<rparr>)"

text \<open>Lines 113 and 182 to 194: the cash-flow statement.\<close>

definition cash_flow_block :: "ReportItem list option \<Rightarrow> CashFlowStatementOut" where
  "cash_flow_block cf =
     (if truthy_items cf then
        \<lparr>cf_net_income = find_concept_value cf ''us-gaap_NetIncomeLoss'',
         cf_depreciation_amortization =
           find_concept_value cf ''us-gaap_DepreciationDepletionAndAmortization'',
         cf_changes_in_working_capital = None,
         cf_cash_from_operating_activities =
           find_concept_value cf ''us-gaap_NetCashProvidedByUsedInOperatingActivities'',
         cf_capital_expenditures =
           find_concept_value cf ''us-gaap_PaymentsToAcquireProductiveAssets'',
         cf_cash_from_investing_activities =
           find_concept_value cf ''us-gaap_NetCashProvidedByUsedInInvestingActivities'',
         cf_dividends_paid = find_concept_value cf ''us-gaap_PaymentsOfDividends'',
         cf_cash_from_financing_activities =
           find_concept_value cf ''us-gaap_NetCashProvidedByUsedInFinancingActivities'',
         cf_net_increase_decrease_in_cash =
           find_concept_value cf ''us-gaap_CashAndCashEquivalentsPeriodIncreaseDecrease''\<rparr>
      else
        \<lparr>cf_net_income = None, cf_depreciation_amortization = None,
         cf_changes_in_working_capital = None, cf_cash_from_operating_activities = None,
         cf_capital_expenditures = None, cf_cash_from_investing_activities = None,
         cf_dividends_paid = None, cf_cash_from_financing_activities = None,
         cf_net_increase_decrease_in_cash = None\<rparr>)"

text \<open>
  The shape of lines 199 to 200, 203 to 204 and 207 to 208: a margin is assigned only
  when both operands are present and the revenue is not zero; there is no other branch.
\<close>

definition margin_ratio :: "pyfloat option \<Rightarrow> pyfloat option \<Rightarrow> py_error + pyfloat option" where
  "margin_ratio numerator current_revenue =
     (case numerator of
        None \<Rightarrow> Inr None
      | Some n \<Rightarrow>
          (case current_revenue of
             None \<Rightarrow> Inr None
           | Some r \<Rightarrow>
               if fne r (Finite 0) then
                 (case fdiv n r of Inl e \<Rightarrow> Inl e | Inr q \<Rightarrow> Inr (Some (py_round q 4)))
               else Inr None))"

text \<open>
  The shape of lines 211 to 214 and 217 to 220: the rounded quotient, and an \<open>elif\<close>
  for a zero denominator. \<open>None == 0\<close> is false in Python.
\<close>

definition balance_ratio :: "pyfloat option \<Rightarrow> pyfloat option \<Rightarrow> py_error + pyfloat option" where
  "balance_ratio numerator denominator =
     (if numerator \<noteq> None \<and> denominator \<noteq> None \<and> fne (the denominator) (Finite 0) then
        (case fdiv (the numerator) (the denominator) of
           Inl e \<Rightarrow> Inl e
         | Inr q \<Rightarrow> Inr (Some (py_round q 2)))
      else if numerator \<noteq> None
              \<and> (case denominator of None \<Rightarrow> False | Some d \<Rightarrow> feq d (Finite 0))
        then Inr (Some PInf)
      else Inr None)"

text \<open>Lines 114 and 197 to 220: the five ratios, in the order of the source.\<close>

definition calculated_ratios_block ::
  "pyfloat option \<Rightarrow> pyfloat option \<Rightarrow> pyfloat option \<Rightarrow> pyfloat option \<Rightarrow> pyfloat option
     \<Rightarrow> pyfloat option \<Rightarrow> pyfloat option \<Rightarrow> pyfloat option \<Rightarrow> py_error + CalculatedRatiosOut" where
  "calculated_ratios_block current_gross_profit current_operating_income current_net_income_ic
       current_revenue current_total_current_assets current_total_current_liabilities
       current_total_liabilities current_total_equity =
     (case margin_ratio current_gross_profit current_revenue of
        Inl e \<Rightarrow> Inl e
      | Inr gross_margin \<Rightarrow>
     (case margin_ratio current_operating_income current_revenue of
        Inl e \<Rightarrow> Inl e
      | Inr operating_margin \<Rightarrow>
     (case margin_ratio current_net_income_ic current_revenue of
        Inl e \<Rightarrow> Inl e
      | Inr net_profit_margin \<Rightarrow>
     (case balance_ratio current_total_current_assets current_total_current_liabilities of
        Inl e \<Rightarrow> Inl e
      | Inr current_ratio \<Rightarrow>
     (case balance_ratio current_total_liabilities current_total_equity of
        Inl e \<Rightarrow> Inl e
      | Inr debt_to_equity_ratio \<Rightarrow>
          Inr \<lparr>cr_gross_margin = gross_margin, cr_operating_margin = operating_margin,
               cr_net_profit_margin = net_profit_margin, cr_current_ratio = current_ratio,
               cr_debt_to_equity_ratio = debt_to_equity_ratio\<rparr>)))))"

text \<open>
  The ratio rule in the words of the specification (section 4.3), for a ratio rounded
  to \<open>places\<close> decimal places.
\<close>

definition ratio_spec :: "pyfloat option \<Rightarrow> pyfloat option \<Rightarrow> nat \<Rightarrow> pyfloat option" where
  "ratio_spec numerator denominator places =
     (case (numerator, denominator) of
        (Some n, Some d) \<Rightarrow>
          if feq d (Finite 0) then Some PInf else Some (py_round (fquot n d) places)
      | _ \<Rightarrow> None)"

text \<open>
  The values the handler reads off one filing's report for its calculations
  (the assignments to \<open>current_revenue\<close>, \<open>current_net_income_ic\<close> and so on).
\<close>

definition current_revenue :: "FinancialReportDetails \<Rightarrow> pyfloat option" where
  "current_revenue report = item_value (is_revenue (income_statement_block (rep_ic report)))"

definition current_net_income_ic :: "FinancialReportDetails \<Rightarrow> pyfloat option" where
  "current_net_income_ic report =
     item_value (is_net_income (income_statement_block (rep_ic report)))"

definition current_gross_profit :: "FinancialReportDetails \<Rightarrow> pyfloat option" where
  "current_gross_profit report =
     item_value (is_gross_profit (income_statement_block (rep_ic report)))"

definition current_operating_income :: "FinancialReportDetails \<Rightarrow> pyfloat option" where
  "current_operating_income report =
     item_value (is_operating_income (income_statement_block (rep_ic report)))"

definition current_total_current_assets :: "FinancialReportDetails \<Rightarrow> pyfloat option" where
  "current_total_current_assets report =
     item_value (bs_total_current_assets (balance_sheet_block (rep_bs report)))"

definition current_total_current_liabilities :: "FinancialReportDetails \<Rightarrow> pyfloat option" where
  "current_total_current_liabilities report =
     item_value (bs_total_current_liabilities (balance_sheet_block (rep_bs report)))"

definition current_total_liabilities :: "FinancialReportDetails \<Rightarrow> pyfloat option" where
  "current_total_liabilities report =
     item_value (bs_total_liabilities (balance_sheet_block (rep_bs report)))"

definition current_total_equity :: "FinancialReportDetails \<Rightarrow> pyfloat option" where
  "current_total_equity report =
     item_value (bs_total_equity (balance_sheet_block (rep_bs report)))"

definition current_cash_from_ops :: "FinancialReportDetails \<Rightarrow> pyfloat option" where
  "current_cash_from_ops report =
     item_value (cf_cash_from_operating_activities (cash_flow_block (rep_cf report)))"

definition filing_ratios :: "FinancialReportDetails \<Rightarrow> py_error + CalculatedRatiosOut" where
  "filing_ratios report =
     calculated_ratios_block (current_gross_profit report) (current_operating_income report)
       (current_net_income_ic report) (current_revenue report)
       (current_total_current_assets report) (current_total_current_liabilities report)
       (current_total_liabilities report) (current_total_equity report)"

text \<open>The \<open>any(...)\<close> tests of lines 247 to 251.\<close>

definition income_statement_present :: "IncomeStatementOut \<Rightarrow> bool" where
  "income_statement_present s =
     list_ex (\<lambda>v. v \<noteq> None)
       [is_revenue s, is_cost_of_revenue s, is_gross_profit s, is_operating_expenses s,
        is_operating_income s, is_net_income s, is_eps_basic s]"

definition balance_sheet_present :: "BalanceSheetOut \<Rightarrow> bool" where
  "balance_sheet_present s =
     list_ex (\<lambda>v. v \<noteq> None)
       [bs_cash_and_cash_equivalents s, bs_marketable_securities s, bs_accounts_receivable s,
        bs_total_current_assets s, bs_property_plant_equipment s, bs_goodwill s,
        bs_total_assets s, bs_accounts_payable s, bs_deferred_revenue s,
        bs_total_current_liabilities s, bs_long_term_debt s, bs_total_liabilities s,
        bs_total_equity s]"

definition cash_flow_present :: "CashFlowStatementOut \<Rightarrow> bool" where
  "cash_flow_present s =
     list_ex (\<lambda>v. v \<noteq> None)
       [cf_net_income s, cf_depreciation_amortization s, cf_changes_in_working_capital s,
        cf_cash_from_operating_activities s, cf_capital_expenditures s,
        cf_cash_from_investing_activities s, cf_dividends_paid s,
        cf_cash_from_financing_activities s, cf_net_increase_decrease_in_cash s]"

definition calculated_ratios_present :: "CalculatedRatiosOut \<Rightarrow> bool" where
  "calculated_ratios_present r =
     list_ex (\<lambda>v. case v of None \<Rightarrow> False | Some x \<Rightarrow> \<not> (isinf x \<or> isnan x))
       [cr_gross_margin r, cr_operating_margin r, cr_net_profit_margin r, cr_current_ratio r,
        cr_debt_to_equity_ratio r]"

section \<open>financials.py: the loop over the annual filings\<close>

text \<open>
  \<open>previous_year_values\<close> is a \<open>defaultdict(lambda: None)\<close>: a read of a key that was
  never written gives \<open>None\<close>, so the dictionary is a total function into \<open>option\<close>.
  One iteration of the loop (lines 109 to 261) takes the dictionary and the filing and
  returns the output record with the updated dictionary. Reading \<open>filing.report.ic\<close>
  on an absent report would raise \<open>AttributeError\<close>.
\<close>

definition loop_body ::
  "(string \<Rightarrow> pyfloat option) \<Rightarrow> FinancialFilingData
     \<Rightarrow> py_error + FinancialFilingOut \<times> (string \<Rightarrow> pyfloat option)" where
  "loop_body previous_year_values filing =
     (case fd_report filing of
        None \<Rightarrow> Inl (AttributeError ''ic'')
      | Some report \<Rightarrow>
          let income_statement = income_statement_block (rep_ic report);
              balance_sheet = balance_sheet_block (rep_bs report);
              cash_flow_statement = cash_flow_block (rep_cf report)
          in
          (case filing_ratios report of
             Inl e \<Rightarrow> Inl e
           | Inr calculated_ratios \<Rightarrow>
          (case calculate_growth_rate (current_revenue report)
                  (previous_year_values ''revenue'') of
             Inl e \<Rightarrow> Inl e
           | Inr revenue_growth_yoy \<Rightarrow>
          (case calculate_growth_rate (current_net_income_ic report)
                  (previous_year_values ''net_income_ic'') of
             Inl e \<Rightarrow> Inl e
           | Inr net_income_growth_yoy \<Rightarrow>
               let health_status =
                     assess_financial_health (current_net_income_ic report)
                       (current_cash_from_ops report) (cr_current_ratio calculated_ratios)
                       (cr_debt_to_equity_ratio calculated_ratios);
                   filing_out =
                     \<lparr>fo_symbol = fd_symbol filing,
                      fo_access_number = fd_accessNumber filing,
                      fo_form_type = fd_form filing,
                      fo_year = fd_year filing,
                      fo_quarter = fd_quarter filing,
                      fo_start_date = fd_startDate filing,
                      fo_end_date = fd_endDate filing,
                      fo_filed_date = fd_filedDate filing,
                      fo_accepted_date = fd_acceptedDate filing,
                      fo_income_statement =
                        (if income_statement_present income_statement
                         then Some income_statement else None),
                      fo_balance_sheet =
                        (if balance_sheet_present balance_sheet
                         then Some balance_sheet else None),
                      fo_cash_flow_statement =
                        (if cash_flow_present cash_flow_statement
                         then Some cash_flow_statement else None),
                      fo_calculated_ratios =
                        (if calculated_ratios_present calculated_ratios
                         then Some calculated_ratios else None),
                      fo_revenue_growth_yoy_percent = revenue_growth_yoy,
                      fo_net_income_growth_yoy_percent = net_income_growth_yoy,
                      fo_financial_health_status = health_status\<rparr>
               in Inr (filing_out,
                       previous_year_values
                         (''revenue'' := current_revenue report,
                          ''net_income_ic'' := current_net_income_ic report))))))"

text \<open>The \<open>for\<close> loop: \<open>filings_out\<close> grows at its end, the dictionary is carried along.\<close>

fun filings_loop ::
  "FinancialFilingOut list \<Rightarrow> (string \<Rightarrow> pyfloat option) \<Rightarrow> FinancialFilingData list
     \<Rightarrow> py_error + FinancialFilingOut list" where
  "filings_loop filings_out previous_year_values [] = Inr filings_out"
| "filings_loop filings_out previous_year_values (filing # rest) =
     (case loop_body previous_year_values filing of
        Inl e \<Rightarrow> Inl e
      | Inr (filing_out, previous_year_values') \<Rightarrow>
          filings_loop (filings_out @ [filing_out]) previous_year_values' rest)"

section \<open>financials.py: selection of the annual filings and the handler\<close>

text \<open>
  Python's \<open>sorted(xs, key=k, reverse=True)\<close>: the list is reversed, sorted by a stable
  ascending sort on the key, and reversed again. Strings compare lexicographically by
  character code, as the order on \<open>string\<close> does here.
\<close>

definition py_sorted_reverse :: "('a \<Rightarrow> 'k::linorder) \<Rightarrow> 'a list \<Rightarrow> 'a list" where
  "py_sorted_reverse key xs = rev (sort_key key (rev xs))"

text \<open>The sort key of line 97: \<open>x.endDate if x.endDate else ""\<close>.\<close>

definition end_date_key :: "FinancialFilingData \<Rightarrow> string" where
  "end_date_key x =
     (case fd_endDate x of None \<Rightarrow> [] | Some d \<Rightarrow> if d = [] then [] else d)"

text \<open>The filter of line 96.\<close>

definition is_annual_filing :: "FinancialFilingData \<Rightarrow> bool" where
  "is_annual_filing f = (fd_quarter f = 0 \<and> fd_form f = ''10-K'' \<and> fd_report f \<noteq> None)"

definition annual_filings :: "FinancialFilingData list \<Rightarrow> FinancialFilingData list" where
  "annual_filings data = py_sorted_reverse end_date_key (filter is_annual_filing data)"

text \<open>
  \<open>get_company_financials_endpoint\<close> (lines 81 to 265), given what the awaited service
  call returned. A Pydantic model instance is always truthy, so \<open>not finnhub_data\<close>
  holds for \<open>None\<close> only.
\<close>

definition get_company_financials_endpoint ::
  "string \<Rightarrow> FinnhubFinancialsReport option \<Rightarrow> py_error + FinancialReportsOut" where
  "get_company_financials_endpoint symbol finnhub_data =
     (if finnhub_data = None \<or> fr_data (the finnhub_data) = [] then
        Inl (HTTPException 404
               (''No annual financial reports found for '' @ symbol
                @ ''. It might be an invalid symbol or data is not available.''))
      else
        let annual = annual_filings (fr_data (the finnhub_data)) in
        if annual = [] then
          Inl (HTTPException 404
                 (''No 10-K annual reports found for '' @ symbol @ '' after filtering.''))
        else
          (case filings_loop [] (\<lambda>k. None) annual of
             Inl e \<Rightarrow> Inl e
           | Inr filings_out \<Rightarrow> Inr \<lparr>ro_symbol = symbol, ro_filings = filings_out\<rparr>))"

text \<open>The revenue and the net income that one filing contributes to the growth rates.\<close>

definition filing_revenue :: "FinancialFilingData \<Rightarrow> pyfloat option" where
  "filing_revenue f = (case fd_report f of None \<Rightarrow> None | Some report \<Rightarrow> current_revenue report)"

definition filing_net_income :: "FinancialFilingData \<Rightarrow> pyfloat option" where
  "filing_net_income f =
     (case fd_report f of None \<Rightarrow> None | Some report \<Rightarrow> current_net_income_ic report)"
section \<open>finnhub\_services.py: cache key, cache and the three service functions\<close>

text \<open>\<open>"_".join(parts)\<close>.\<close>

fun join_underscore :: "string list \<Rightarrow> string" where
  "join_underscore [] = []"
| "join_underscore [p] = p"
| "join_underscore (p # q # ps) = p @ ''_'' @ join_underscore (q # ps)"

text \<open>
  \<open>_get_cache_key\<close> (lines 16 to 21). The keyword arguments are an association list;
  \<open>sorted(kwargs.items())\<close> orders it by key, the keys of a call being distinct.
\<close>

definition get_cache_key :: "string \<Rightarrow> string \<Rightarrow> (string \<times> string) list \<Rightarrow> string" where
  "get_cache_key endpoint symbol kwargs =
     join_underscore
       ([endpoint, symbol] @ map (\<lambda>(k, v). k @ ''='' @ v) (sort_key fst kwargs))"

text \<open>\<open>needle in text\<close> on strings.\<close>

fun starts_with :: "string \<Rightarrow> string \<Rightarrow> bool" where
  "starts_with [] s = True"
| "starts_with (p # ps) [] = False"
| "starts_with (p # ps) (c # cs) = (p = c \<and> starts_with ps cs)"

fun contains :: "string \<Rightarrow> string \<Rightarrow> bool" where
  "contains needle [] = (needle = [])"
| "contains needle (c # cs) = (starts_with needle (c # cs) \<or> contains needle cs)"

text \<open>
  The module-level dictionary \<open>_finnhub_cache\<close> maps a key to \<open>{"data", "timestamp"}\<close>.
  The payload type is left open: the cache stores whatever the fetch returned. A
  \<open>datetime\<close> is its count of microseconds, the resolution of the type.
\<close>

record 'a cache_entry =
  ce_data :: 'a
  ce_timestamp :: int

definition CACHE_EXPIRATION_SECONDS :: int where
  "CACHE_EXPIRATION_SECONDS = 300"

text \<open>\<open>timedelta(seconds=n)\<close> in microseconds.\<close>

definition timedelta_seconds :: "int \<Rightarrow> int" where
  "timedelta_seconds n = n * 1000000"

text \<open>
  What a service call can observe and change: the cache, and the requests sent
  upstream, recorded in order so that "the fetch is not invoked" can be stated.
\<close>

record 'a service_state =
  finnhub_cache :: "string \<rightharpoonup> 'a cache_entry"
  requests :: "string list"

text \<open>
  The body shared by \<open>get_company_profile\<close>, \<open>get_basic_financials\<close> and
  \<open>get_financials_reported\<close> (lines 33 to 63, 65 to 92 and 94 to 122), which differ in the
  cache key and the URL only. \<open>fetch\<close> stands for \<open>_fetch_from_finnhub\<close>: for a URL it
  gives the parsed model or the exception raised. \<open>now_check\<close> and \<open>now_store\<close> are the
  two readings of \<open>datetime.now()\<close>. Both \<open>except\<close> clauses re-raise, but for a 400
  status whose body contains "Invalid symbol", which returns \<open>None\<close>.
\<close>

definition fetch_fresh ::
  "string \<Rightarrow> string \<Rightarrow> (string \<Rightarrow> py_error + 'a) \<Rightarrow> int \<Rightarrow> 'a service_state
     \<Rightarrow> (py_error + 'a option) \<times> 'a service_state" where
  "fetch_fresh cache_key url fetch now_store st =
     (let st' = st\<lparr>requests := requests st @ [url]\<rparr> in
      case fetch url of
        Inr model \<Rightarrow>
          (Inr (Some model),
           st'\<lparr>finnhub_cache :=
                 (finnhub_cache st')(cache_key \<mapsto> \<lparr>ce_data = model, ce_timestamp = now_store\<rparr>)\<rparr>)
      | Inl (HTTPStatusError status_code body) \<Rightarrow>
          if status_code = 400 \<and> contains ''Invalid symbol'' body then (Inr None, st')
          else (Inl (HTTPStatusError status_code body), st')
      | Inl e \<Rightarrow> (Inl e, st'))"

definition cached_service ::
  "string \<Rightarrow> string \<Rightarrow> (string \<Rightarrow> py_error + 'a) \<Rightarrow> int \<Rightarrow> int \<Rightarrow> 'a service_state
     \<Rightarrow> (py_error + 'a option) \<times> 'a service_state" where
  "cached_service cache_key url fetch now_check now_store st =
     (case finnhub_cache st cache_key of
        Some cached_entry \<Rightarrow>
          if now_check - ce_timestamp cached_entry < timedelta_seconds CACHE_EXPIRATION_SECONDS
          then (Inr (Some (ce_data cached_entry)), st)
          else fetch_fresh cache_key url fetch now_store st
      | None \<Rightarrow> fetch_fresh cache_key url fetch now_store st)"

definition get_company_profile ::
  "string \<Rightarrow> string \<Rightarrow> (string \<Rightarrow> py_error + 'a) \<Rightarrow> int \<Rightarrow> int \<Rightarrow> 'a service_state
     \<Rightarrow> (py_error + 'a option) \<times> 'a service_state" where
  "get_company_profile symbol api_key =
     cached_service (get_cache_key ''company_profile'' symbol [])
       (''https://finnhub.io/api/v1/stock/profile2?symbol='' @ symbol @ ''&token='' @ api_key)"

definition get_basic_financials ::
  "string \<Rightarrow> string \<Rightarrow> string \<Rightarrow> (string \<Rightarrow> py_error + 'a) \<Rightarrow> int \<Rightarrow> int \<Rightarrow> 'a service_state
     \<Rightarrow> (py_error + 'a option) \<times> 'a service_state" where
  "get_basic_financials symbol api_key metric_type =
     cached_service (get_cache_key ''basic_financials'' symbol [(''metric'', metric_type)])
       (''https://finnhub.io/api/v1/stock/metric?symbol='' @ symbol @ ''&metric='' @ metric_type
        @ ''&token='' @ api_key)"

definition get_financials_reported ::
  "string \<Rightarrow> string \<Rightarrow> string \<Rightarrow> (string \<Rightarrow> py_error + 'a) \<Rightarrow> int \<Rightarrow> int \<Rightarrow> 'a service_state
     \<Rightarrow> (py_error + 'a option) \<times> 'a service_state" where
  "get_financials_reported symbol api_key report_type =
     cached_service (get_cache_key ''financials_reported'' symbol [(''type'', report_type)])
       (''https://finnhub.io/api/v1/stock/financials-reported?symbol='' @ symbol @ ''&type=''
        @ report_type @ ''&token='' @ api_key)"

text \<open>
  The cache contract in the words of the specification (section 4.1): an entry is live
  when its age is below the freshness window.
\<close>

definition live_entry :: "'a service_state \<Rightarrow> string \<Rightarrow> int \<Rightarrow> bool" where
  "live_entry st key now =
     (case finnhub_cache st key of
        None \<Rightarrow> False
      | Some e \<Rightarrow> now - ce_timestamp e < 300 * 1000000)"

section \<open>company.py: the company-profile handler\<close>

record FinnhubCompanyProfile2 =
  p2_country :: string
  p2_currency :: string
  p2_exchange :: string
  p2_ipo :: string
  p2_marketCapitalization :: pyfloat
  p2_name :: string
  p2_phone :: "string option"
  p2_shareOutstanding :: pyfloat
  p2_ticker :: string
  p2_weburl :: "string option"
  p2_logo :: "string option"
  p2_finnhubIndustry :: "string option"

record CompanyProfileOut =
  cp_symbol :: string
  cp_name :: string
  cp_exchange :: string
  cp_industry :: "string option"
  cp_website :: "string option"
  cp_market_capitalization :: pyfloat
  cp_shares_outstanding :: pyfloat
  cp_country :: "string option"
  cp_currency :: "string option"
  cp_ipo_date :: "string option"
  cp_logo_url :: "string option"

text \<open>
  \<open>get_company_profile_endpoint\<close> (company.py, lines 8 to 33), given what the awaited
  service call returned. There is no test of \<open>finnhub_data\<close>: the first argument of
  the constructor reads \<open>finnhub_data.ticker\<close>, which raises \<open>AttributeError\<close> on \<open>None\<close>.
\<close>

definition get_company_profile_endpoint ::
  "string \<Rightarrow> FinnhubCompanyProfile2 option \<Rightarrow> py_error + CompanyProfileOut" where
  "get_company_profile_endpoint symbol finnhub_data =
     (case finnhub_data of
        None \<Rightarrow> Inl (AttributeError ''ticker'')
      | Some d \<Rightarrow>
          Inr \<lparr>cp_symbol = p2_ticker d,
               cp_name = p2_name d,
               cp_exchange = p2_exchange d,
               cp_industry = p2_finnhubIndustry d,
               cp_website = p2_weburl d,
               cp_market_capitalization = p2_marketCapitalization d,
               cp_shares_outstanding = p2_shareOutstanding d,
               cp_country = Some (p2_country d),
               cp_currency = Some (p2_currency d),
               cp_ipo_date = Some (p2_ipo d),
               cp_logo_url = p2_logo d\<rparr>)"
section \<open>metrics.py: the key-metrics handler\<close>

text \<open>
  \<open>FinnhubMetricData\<close> declares the fields below and allows extra ones (\<open>extra = "allow"\<close>):
  an undeclared key of the upstream payload is kept with its raw value and can be
  read as an attribute; reading an attribute that is neither declared nor present
  raises \<open>AttributeError\<close>.
\<close>

record FinnhubMetricData =
  md_peTTM :: "pyfloat option"
  md_psTTM :: "pyfloat option"
  md_pb :: "pyfloat option"
  md_epsTTM :: "pyfloat option"
  md_roeTTM :: "pyfloat option"
  md_roaTTM :: "pyfloat option"
  md_netProfitMarginTTM :: "pyfloat option"
  md_grossMarginTTM :: "pyfloat option"
  md_operatingMarginTTM :: "pyfloat option"
  md_currentRatioAnnual :: "pyfloat option"
  md_quickRatioAnnual :: "pyfloat option"
  md_totalDebt_totalEquityAnnual :: "pyfloat option"
  md_revenueGrowthTTMYoy :: "pyfloat option"
  md_epsGrowthTTMYoy :: "pyfloat option"
  md_dividendPerShareTTM :: "pyfloat option"
  md_currentDividendYieldTTM :: "pyfloat option"
  md_beta :: "pyfloat option"
  md_marketCapitalization :: "pyfloat option"
  md_fifty_two_week_high :: "pyfloat option"
  md_fifty_two_week_low :: "pyfloat option"
  md_cashFlowPerShareTTM :: "pyfloat option"
  md_extra :: "(string \<times> pyval) list"

text \<open>\<open>series\<close> is never read by the handler; it is kept as raw text.\<close>

record FinnhubBasicFinancials =
  bf_metric :: "FinnhubMetricData option"
  bf_metricType :: string
  bf_symbol :: "string option"
  bf_series :: "string option"

record KeyMetricsOut =
  km_symbol :: string
  km_pe_ratio_ttm :: "pyfloat option"
  km_ps_ratio_ttm :: "pyfloat option"
  km_pb_ratio :: "pyfloat option"
  km_market_capitalization :: "pyfloat option"
  km_eps_ttm :: "pyfloat option"
  km_roe_ttm :: "pyfloat option"
  km_roa_ttm :: "pyfloat option"
  km_net_profit_margin_ttm :: "pyfloat option"
  km_gross_margin_ttm :: "pyfloat option"
  km_operating_margin_ttm :: "pyfloat option"
  km_current_ratio_annual :: "pyfloat option"
  km_quick_ratio_annual :: "pyfloat option"
  km_total_debt_to_equity_annual :: "pyfloat option"
  km_revenue_growth_ttm_yoy :: "pyfloat option"
  km_eps_growth_ttm_yoy :: "pyfloat option"
  km_dividend_per_share_ttm :: "pyfloat option"
  km_current_dividend_yield_ttm :: "pyfloat option"
  km_beta :: "pyfloat option"
  km_fifty_two_week_high :: "pyfloat option"
  km_fifty_two_week_low :: "pyfloat option"
  km_cash_flow_per_share_ttm :: "pyfloat option"
  km_valuation_status :: "string option"
  km_profitability_assessment :: "string option"
  km_liquidity_assessment :: "string option"

text \<open>
  The keys under which \<open>KeyMetricsOut\<close> (app\_schemas.py, lines 109 to 150) accepts its
  optional float fields, in the order of the declaration: the field name, or the alias
  where one is declared (the two 52-week fields; the model does not set
  \<open>populate_by_name\<close>).
\<close>

definition KeyMetricsOut_float_keys :: "string list" where
  "KeyMetricsOut_float_keys =
     [''pe_ratio_ttm'', ''ps_ratio_ttm'', ''pb_ratio'', ''market_capitalization'', ''eps_ttm'',
      ''roe_ttm'', ''roa_ttm'', ''net_profit_margin_ttm'', ''gross_margin_ttm'',
      ''operating_margin_ttm'', ''current_ratio_annual'', ''quick_ratio_annual'',
      ''total_debt_to_equity_annual'', ''revenue_growth_ttm_yoy'', ''eps_growth_ttm_yoy'',
      ''dividend_per_share_ttm'', ''current_dividend_yield_ttm'', ''beta'', ''52_week_high'',
      ''52_week_low'', ''cash_flow_per_share_ttm'']"

definition KeyMetricsOut_str_keys :: "string list" where
  "KeyMetricsOut_str_keys =
     [''valuation_status'', ''profitability_assessment'', ''liquidity_assessment'']"

text \<open>
  Validation of one keyword argument against \<open>Optional[float]\<close> and \<open>Optional[str]\<close>:
  an absent key or \<open>None\<close> gives the default \<open>None\<close>; \<open>VStr\<close> stands for text that is
  not a number.
\<close>

fun float_field_ok :: "pyval option \<Rightarrow> bool" where
  "float_field_ok (Some (VStr s)) = False"
| "float_field_ok _ = True"

fun float_field :: "pyval option \<Rightarrow> pyfloat option" where
  "float_field (Some (VFloat x)) = Some x"
| "float_field (Some (VInt n)) = Some (Finite (of_int n))"
| "float_field _ = None"

fun str_field_ok :: "pyval option \<Rightarrow> bool" where
  "str_field_ok None = True"
| "str_field_ok (Some VNone) = True"
| "str_field_ok (Some (VStr s)) = True"
| "str_field_ok _ = False"

fun str_field :: "pyval option \<Rightarrow> string option" where
  "str_field (Some (VStr s)) = Some s"
| "str_field _ = None"

text \<open>
  The constructor \<open>KeyMetricsOut(**kwargs)\<close> as Pydantic runs it with the default
  configuration: each declared field is read under its key, a keyword that is no such
  key is ignored, the required \<open>symbol\<close> must be a string, and a value of the wrong
  type raises \<open>ValidationError\<close>.
\<close>

definition KeyMetricsOut_init :: "(string \<times> pyval) list \<Rightarrow> py_error + KeyMetricsOut" where
  "KeyMetricsOut_init kwargs =
     (let kw = map_of kwargs in
      case kw ''symbol'' of
        Some (VStr s) \<Rightarrow>
          if list_all (\<lambda>k. float_field_ok (kw k)) KeyMetricsOut_float_keys
             \<and> list_all (\<lambda>k. str_field_ok (kw k)) KeyMetricsOut_str_keys
          then
            Inr \<lparr>km_symbol = s,
                 km_pe_ratio_ttm = float_field (kw ''pe_ratio_ttm''),
                 km_ps_ratio_ttm = float_field (kw ''ps_ratio_ttm''),
                 km_pb_ratio = float_field (kw ''pb_ratio''),
                 km_market_capitalization = float_field (kw ''market_capitalization''),
                 km_eps_ttm = float_field (kw ''eps_ttm''),
                 km_roe_ttm = float_field (kw ''roe_ttm''),
                 km_roa_ttm = float_field (kw ''roa_ttm''),
                 km_net_profit_margin_ttm = float_field (kw ''net_profit_margin_ttm''),
                 km_gross_margin_ttm = float_field (kw ''gross_margin_ttm''),
                 km_operating_margin_ttm = float_field (kw ''operating_margin_ttm''),
                 km_current_ratio_annual = float_field (kw ''current_ratio_annual''),
                 km_quick_ratio_annual = float_field (kw ''quick_ratio_annual''),
                 km_total_debt_to_equity_annual =
                   float_field (kw ''total_debt_to_equity_annual''),
                 km_revenue_growth_ttm_yoy = float_field (kw ''revenue_growth_ttm_yoy''),
                 km_eps_growth_ttm_yoy = float_field (kw ''eps_growth_ttm_yoy''),
                 km_dividend_per_share_ttm = float_field (kw ''dividend_per_share_ttm''),
                 km_current_dividend_yield_ttm =
                   float_field (kw ''current_dividend_yield_ttm''),
                 km_beta = float_field (kw ''beta''),
                 km_fifty_two_week_high = float_field (kw ''52_week_high''),
                 km_fifty_two_week_low = float_field (kw ''52_week_low''),
                 km_cash_flow_per_share_ttm = float_field (kw ''cash_flow_per_share_ttm''),
                 km_valuation_status = str_field (kw ''valuation_status''),
                 km_profitability_assessment = str_field (kw ''profitability_assessment''),
                 km_liquidity_assessment = str_field (kw ''liquidity_assessment'')\<rparr>
          else Inl (ValidationError ''KeyMetricsOut'')
      | _ \<Rightarrow> Inl (ValidationError ''KeyMetricsOut''))"

text \<open>A Python value passed as a keyword argument.\<close>

definition of_float :: "pyfloat option \<Rightarrow> pyval" where
  "of_float x = (case x of None \<Rightarrow> VNone | Some v \<Rightarrow> VFloat v)"

definition of_str :: "string option \<Rightarrow> pyval" where
  "of_str x = (case x of None \<Rightarrow> VNone | Some s \<Rightarrow> VStr s)"

text \<open>\<open>x * 100 if x is not None else None\<close> (lines 85 and 86).\<close>

definition times_100 :: "pyfloat option \<Rightarrow> pyfloat option" where
  "times_100 x = (case x of None \<Rightarrow> None | Some v \<Rightarrow> Some (fmul v (Finite 100)))"

text \<open>
  The keyword arguments of the constructor call (lines 65 to 101), in the order of the
  source, given the metrics and the value read for \<open>metrics.quickRatioQuarterly\<close>.
\<close>

definition key_metrics_kwargs ::
  "FinnhubBasicFinancials \<Rightarrow> FinnhubMetricData \<Rightarrow> pyval \<Rightarrow> (string \<times> pyval) list" where
  "key_metrics_kwargs finnhub_data metrics quick =
     [(''symbol'', of_str (bf_symbol finnhub_data)),
      (''pe_ratio_ttm'', of_float (md_peTTM metrics)),
      (''ps_ratio_ttm'', of_float (md_psTTM metrics)),
      (''pb_ratio'', of_float (md_pb metrics)),
      (''market_capitalization'', of_float (md_marketCapitalization metrics)),
      (''eps_ttm'', of_float (md_epsTTM metrics)),
      (''roe_ttm'', of_float (md_roeTTM metrics)),
      (''roa_ttm'', of_float (md_roaTTM metrics)),
      (''net_profit_margin_ttm'', of_float (md_netProfitMarginTTM metrics)),
      (''gross_margin_ttm'', of_float (md_grossMarginTTM metrics)),
      (''operating_margin_ttm'', of_float (md_operatingMarginTTM metrics)),
      (''current_ratio_annual'', of_float (md_currentRatioAnnual metrics)),
      (''quick_ratio_annual'', quick),
      (''total_debt_to_equity_annual'', of_float (md_totalDebt_totalEquityAnnual metrics)),
      (''revenue_growth_ttm_yoy_percent'', of_float (times_100 (md_revenueGrowthTTMYoy metrics))),
      (''eps_growth_ttm_yoy_percent'', of_float (times_100 (md_epsGrowthTTMYoy metrics))),
      (''dividend_per_share_ttm'', of_float (md_dividendPerShareTTM metrics)),
      (''current_dividend_yield_ttm'', of_float (md_currentDividendYieldTTM metrics)),
      (''beta'', of_float (md_beta metrics)),
      (''fifty_two_week_high'', of_float (md_fifty_two_week_high metrics)),
      (''fifty_two_week_low'', of_float (md_fifty_two_week_low metrics)),
      (''cash_flow_per_share_ttm'', of_float (md_cashFlowPerShareTTM metrics)),
      (''valuation_status'', of_str (assess_valuation (md_peTTM metrics))),
      (''profitability_assessment'',
         of_str (assess_profitability (md_netProfitMarginTTM metrics))),
      (''liquidity_assessment'', of_str (assess_liquidity (md_currentRatioAnnual metrics)))]"

text \<open>
  \<open>get_company_metrics_endpoint\<close> (metrics.py, lines 50 to 103), given what the awaited
  service call returned. \<open>quickRatioQuarterly\<close> is not a declared field of
  \<open>FinnhubMetricData\<close>, so line 81 reads it from the extra keys.
\<close>

definition get_company_metrics_endpoint ::
  "string \<Rightarrow> FinnhubBasicFinancials option \<Rightarrow> py_error + KeyMetricsOut" where
  "get_company_metrics_endpoint symbol finnhub_data =
     (if finnhub_data = None \<or> bf_metric (the finnhub_data) = None then
        Inl (HTTPException 404
               (''No key metrics found for '' @ symbol
                @ ''. It might be an invalid symbol or data is not available.''))
      else
        let metrics = the (bf_metric (the finnhub_data)) in
        case map_of (md_extra metrics) ''quickRatioQuarterly'' of
          None \<Rightarrow> Inl (AttributeError ''quickRatioQuarterly'')
        | Some quick \<Rightarrow>
            KeyMetricsOut_init (key_metrics_kwargs (the finnhub_data) metrics quick))"

section \<open>Properties of the float model\<close>

lemma round_half_even_error: "\<bar>of_int (round_half_even x) - x\<bar> \<le> 1 / 2"
  unfolding round_half_even_def Let_def
  by (auto simp: abs_if) linarith+

lemma round_rat_error: "\<bar>round_rat x n - x\<bar> \<le> 1 / (2 * 10 ^ n)"
proof -
  let ?p = "(10::rat) ^ n"
  have e: "round_rat x n - x = (of_int (round_half_even (x * ?p)) - x * ?p) / ?p"
    by (simp add: round_rat_def diff_divide_distrib)
  have "\<bar>round_rat x n - x\<bar> = \<bar>of_int (round_half_even (x * ?p)) - x * ?p\<bar> / ?p"
    unfolding e by (simp add: abs_divide)
  also have "\<dots> \<le> (1 / 2) / ?p"
    by (intro divide_right_mono round_half_even_error) simp
  finally show ?thesis by simp
qed

lemma round_rat_grid: "round_rat x n * 10 ^ n = of_int (round_half_even (x * 10 ^ n))"
  by (simp add: round_rat_def)

lemma flt_not_fgt: "flt x y \<Longrightarrow> \<not> fgt x y"
  by (cases x; cases y) (auto simp: fgt_def)

text \<open>
  The rounding to binary64: the exponent found is the binary exponent, the result is
  within half a unit of the last place, and integers below \<open>2\<^sup>5\<^sup>3\<close> are floats.
\<close>

lemma pow2_powi: "pow2 k = 2 powi k"
  by (simp add: pow2_def power_int_def inverse_eq_divide power_one_over)

lemma pow2_pos: "0 < pow2 k"
  by (simp add: pow2_def)

lemma pow2_add: "pow2 (i + j) = pow2 i * pow2 j"
  by (simp add: pow2_powi power_int_add)

lemma pow2_diff: "pow2 (i - j) = pow2 i / pow2 j"
  by (simp add: pow2_powi power_int_diff)

lemma pow2_nat: "pow2 (int n) = 2 ^ n"
  by (simp add: pow2_def)

lemma pow2_mono: "i \<le> j \<Longrightarrow> pow2 i \<le> pow2 j"
  by (simp add: pow2_powi power_int_increasing)

lemma round_half_even_of_int: "round_half_even (of_int z) = z"
  by (simp add: round_half_even_def)

lemma bitlen_rat_bounds:
  assumes "0 < (p::int)"
  shows "pow2 (bitlen p - 1) \<le> of_int p" and "of_int p < pow2 (bitlen p)"
proof -
  from assms have b: "1 \<le> bitlen p"
    by (auto simp: bitlen_alt_def)
  from bitlen_bounds [OF assms] have l: "2 ^ nat (bitlen p - 1) \<le> p" and u: "p < 2 ^ nat (bitlen p)"
    by simp_all
  from l have "(of_int (2 ^ nat (bitlen p - 1)) :: rat) \<le> of_int p"
    by (simp only: of_int_le_iff)
  with b show "pow2 (bitlen p - 1) \<le> of_int p"
    by (simp add: pow2_def)
  from u have "(of_int p :: rat) < of_int (2 ^ nat (bitlen p))"
    by (simp only: of_int_less_iff)
  with b show "of_int p < pow2 (bitlen p)"
    by (simp add: pow2_def)
qed

lemma ilog2_bounds:
  assumes "0 < a"
  shows "pow2 (ilog2 a) \<le> a \<and> a < pow2 (ilog2 a + 1)"
proof -
  obtain p q where pq: "quotient_of a = (p, q)"
    by (cases "quotient_of a")
  then have q: "0 < q" and a: "a = of_int p / of_int q"
    by (auto dest: quotient_of_denom_pos quotient_of_div)
  from assms a q have p: "0 < p"
    by (simp add: zero_less_divide_iff)
  let ?k = "bitlen p - bitlen q"
  have qr: "(0::rat) < of_int q" using q by simp
  have "a < pow2 (bitlen p) / pow2 (bitlen q - 1)"
  proof -
    have "a < pow2 (bitlen p) / of_int q"
      unfolding a using bitlen_rat_bounds(2) [OF p] qr by (simp add: divide_strict_right_mono)
    also have "\<dots> \<le> pow2 (bitlen p) / pow2 (bitlen q - 1)"
      using bitlen_rat_bounds(1) [OF q] pow2_pos [of "bitlen p"] pow2_pos [of "bitlen q - 1"]
      by (simp add: frac_le)
    finally show ?thesis .
  qed
  moreover have "pow2 (bitlen p) / pow2 (bitlen q - 1) = pow2 (?k + 1)"
    unfolding pow2_diff [symmetric] by (rule arg_cong [where f = pow2]) simp
  ultimately have up: "a < pow2 (?k + 1)"
    by (simp only:)
  have "pow2 (bitlen p - 1) / pow2 (bitlen q) \<le> a"
  proof -
    have "pow2 (bitlen p - 1) / pow2 (bitlen q) \<le> pow2 (bitlen p - 1) / of_int q"
      using bitlen_rat_bounds(2) [OF q] pow2_pos [of "bitlen p - 1"] qr
      by (simp add: frac_le)
    also have "\<dots> \<le> a"
      unfolding a using bitlen_rat_bounds(1) [OF p] qr by (simp add: divide_right_mono)
    finally show ?thesis .
  qed
  moreover have "pow2 (bitlen p - 1) / pow2 (bitlen q) = pow2 (?k - 1)"
    unfolding pow2_diff [symmetric] by (rule arg_cong [where f = pow2]) simp
  ultimately have lo: "pow2 (?k - 1) \<le> a"
    by (simp only:)
  show ?thesis
  proof (cases "pow2 ?k \<le> a")
    case True
    then show ?thesis using up by (simp add: ilog2_def pq Let_def)
  next
    case False
    then show ?thesis using lo by (simp add: ilog2_def pq Let_def)
  qed
qed

lemma double_of_error:
  assumes "double_of x = Finite v"
  shows "\<bar>v - x\<bar> \<le> pow2 (max (ilog2 \<bar>x\<bar> - 52) (- 1074)) / 2"
proof (cases "x = 0")
  case True
  with assms have "v = 0" by (simp add: double_of_def)
  with True show ?thesis
    using pow2_pos [of "max (ilog2 \<bar>x\<bar> - 52) (- 1074)"] by simp
next
  case False
  define e where "e = max (ilog2 \<bar>x\<bar> - 52) (- 1074)"
  define w where "w = of_int (round_half_even (\<bar>x\<bar> / pow2 e)) * pow2 e"
  have d: "double_of x =
             (if pow2 1024 \<le> w then (if 0 < x then PInf else NInf)
              else Finite (if 0 < x then w else - w))"
    using False by (simp add: double_of_def Let_def e_def w_def)
  from assms have v: "v = (if 0 < x then w else - w)"
    unfolding d by (simp split: if_splits)
  have p: "0 < pow2 e" by (rule pow2_pos)
  have "\<bar>of_int (round_half_even (\<bar>x\<bar> / pow2 e)) - \<bar>x\<bar> / pow2 e\<bar> \<le> 1 / 2"
    by (rule round_half_even_error)
  then have "\<bar>of_int (round_half_even (\<bar>x\<bar> / pow2 e)) - \<bar>x\<bar> / pow2 e\<bar> * pow2 e
               \<le> (1 / 2) * pow2 e"
    using p by (intro mult_right_mono) simp_all
  moreover have "\<bar>of_int (round_half_even (\<bar>x\<bar> / pow2 e)) - \<bar>x\<bar> / pow2 e\<bar> * pow2 e
                   = \<bar>w - \<bar>x\<bar>\<bar>"
  proof -
    have "(of_int (round_half_even (\<bar>x\<bar> / pow2 e)) - \<bar>x\<bar> / pow2 e) * pow2 e = w - \<bar>x\<bar>"
      using p by (simp add: w_def left_diff_distrib)
    then have "\<bar>w - \<bar>x\<bar>\<bar>
                 = \<bar>of_int (round_half_even (\<bar>x\<bar> / pow2 e)) - \<bar>x\<bar> / pow2 e\<bar> * \<bar>pow2 e\<bar>"
      by (simp only: abs_mult [symmetric])
    with p show ?thesis by simp
  qed
  ultimately have b: "\<bar>w - \<bar>x\<bar>\<bar> \<le> pow2 e / 2"
    by simp
  show ?thesis
  proof (cases "0 < x")
    case True
    then have "v = w" "\<bar>x\<bar> = x" using v by simp_all
    with b show ?thesis by (simp add: e_def)
  next
    case neg: False
    then have "v = - w" and ax: "\<bar>x\<bar> = - x" using v by simp_all
    then have "\<bar>v - x\<bar> = \<bar>w - \<bar>x\<bar>\<bar>"
      by (simp add: abs_minus_commute)
    with b show ?thesis by (simp add: e_def)
  qed
qed

lemma double_of_int:
  assumes "\<bar>n\<bar> < 2 ^ 53"
  shows "double_of (of_int n) = Finite (of_int n)"
proof (cases "n = 0")
  case True
  then show ?thesis by (simp add: double_of_def)
next
  case False
  let ?a = "\<bar>of_int n :: rat\<bar>"
  let ?e = "max (ilog2 ?a - 52) (- 1074)"
  have apos: "0 < ?a" using False by simp
  have a53: "?a < pow2 53"
  proof -
    from assms have "(of_int \<bar>n\<bar> :: rat) < of_int (2 ^ 53)"
      by (simp only: of_int_less_iff)
    then show ?thesis by (simp add: pow2_def)
  qed
  have "ilog2 ?a \<le> 52"
  proof (rule ccontr)
    assume "\<not> ilog2 ?a \<le> 52"
    then have "53 \<le> ilog2 ?a" by simp
    then have "pow2 53 \<le> pow2 (ilog2 ?a)" by (rule pow2_mono)
    also have "\<dots> \<le> ?a" using ilog2_bounds [OF apos] by simp
    finally show False using a53 by simp
  qed
  then have e: "?e \<le> 0" by simp
  have q: "?a / pow2 ?e = of_int (\<bar>n\<bar> * 2 ^ nat (- ?e))"
    using e by (simp add: pow2_def)
  have m: "of_int (round_half_even (?a / pow2 ?e)) * pow2 ?e = ?a"
    unfolding q round_half_even_of_int using e by (simp add: pow2_def)
  have "?a < pow2 1024"
    using a53 pow2_mono [of 53 1024] by simp
  then show ?thesis
    using False m by (simp add: double_of_def Let_def abs_if split: if_splits)
qed

text \<open>
  Evaluating the rounding at a given number: the exponent and the significand are
  determined by inequalities, which are checked by calculation.
\<close>

lemma ilog2_unique:
  assumes "pow2 k \<le> a" and "a < pow2 (k + 1)"
  shows "ilog2 a = k"
proof -
  have "0 < a" using assms(1) pow2_pos [of k] by simp
  from ilog2_bounds [OF this] have l: "pow2 (ilog2 a) \<le> a" and u: "a < pow2 (ilog2 a + 1)"
    by simp_all
  have "\<not> ilog2 a < k"
  proof
    assume "ilog2 a < k"
    then have "pow2 (ilog2 a + 1) \<le> pow2 k" by (intro pow2_mono) simp
    with assms(1) u show False by simp
  qed
  moreover have "\<not> k < ilog2 a"
  proof
    assume "k < ilog2 a"
    then have "pow2 (k + 1) \<le> pow2 (ilog2 a)" by (intro pow2_mono) simp
    with assms(2) l show False by simp
  qed
  ultimately show ?thesis by simp
qed

lemma round_half_even_unique:
  assumes "\<bar>of_int m - x\<bar> < 1 / 2"
  shows "round_half_even x = m"
proof -
  from assms have a: "of_int m < x + 1 / 2" and b: "x - 1 / 2 < of_int m"
    by linarith+
  have f: "of_int \<lfloor>x\<rfloor> \<le> x" and g: "x < of_int \<lfloor>x\<rfloor> + 1"
    by linarith+
  show ?thesis
  proof (cases "x - of_int \<lfloor>x\<rfloor> < 1 / 2")
    case True
    with a b f g have "(of_int m :: rat) < of_int \<lfloor>x\<rfloor> + 1" and "(of_int \<lfloor>x\<rfloor> :: rat) - 1 < of_int m"
      by linarith+
    then have "m = \<lfloor>x\<rfloor>" by linarith
    with True show ?thesis by (simp add: round_half_even_def)
  next
    case False
    show ?thesis
    proof (cases "1 / 2 < x - of_int \<lfloor>x\<rfloor>")
      case True
      with a b f g have "(of_int m :: rat) < of_int \<lfloor>x\<rfloor> + 2" and "(of_int \<lfloor>x\<rfloor> :: rat) < of_int m"
        by linarith+
      then have "m = \<lfloor>x\<rfloor> + 1" by linarith
      with True False show ?thesis by (simp add: round_half_even_def)
    next
      case h: False
      with False have e: "x = of_int \<lfloor>x\<rfloor> + 1 / 2" by linarith
      with a b have "(of_int m :: rat) < of_int \<lfloor>x\<rfloor> + 1" and "(of_int \<lfloor>x\<rfloor> :: rat) < of_int m"
        by linarith+
      then have "(of_int m :: rat) < of_int (\<lfloor>x\<rfloor> + 1)" and "(of_int \<lfloor>x\<rfloor> :: rat) < of_int m"
        by simp_all
      then have "m < \<lfloor>x\<rfloor> + 1" and "\<lfloor>x\<rfloor> < m"
        by (simp_all only: of_int_less_iff)
      then show ?thesis by simp
    qed
  qed
qed

lemma round_half_even_ge:
  assumes "of_int z \<le> x"
  shows "z \<le> round_half_even x"
proof -
  from assms have "z \<le> \<lfloor>x\<rfloor>" by (simp add: le_floor_iff)
  then show ?thesis
    by (simp add: round_half_even_def Let_def)
qed

lemma double_of_cert:
  assumes "x \<noteq> 0" and "pow2 k \<le> \<bar>x\<bar>" and "\<bar>x\<bar> < pow2 (k + 1)"
    and "e = max (k - 52) (- 1074)"
    and "\<bar>of_int m - \<bar>x\<bar> / pow2 e\<bar> < 1 / 2"
    and "of_int m * pow2 e < pow2 1024"
    and "v = (if 0 < x then of_int m * pow2 e else - (of_int m * pow2 e))"
  shows "double_of x = Finite v"
proof -
  have k: "ilog2 \<bar>x\<bar> = k"
    using assms(2,3) by (rule ilog2_unique)
  have m: "round_half_even (\<bar>x\<bar> / pow2 e) = m"
    using assms(5) by (rule round_half_even_unique)
  show ?thesis
    using assms(1,6) unfolding double_of_def k assms(4) [symmetric] Let_def m assms(7)
    by simp
qed

lemma double_of_overflow:
  assumes "pow2 1024 \<le> \<bar>x\<bar>"
  shows "double_of x = (if 0 < x then PInf else NInf)"
proof -
  have x: "x \<noteq> 0" using assms pow2_pos [of 1024] by auto
  then have a: "0 < \<bar>x\<bar>" by simp
  define k where "k = ilog2 \<bar>x\<bar>"
  define e where "e = max (k - 52) (- 1074)"
  have "1024 \<le> k"
  proof (rule ccontr)
    assume "\<not> 1024 \<le> k"
    then have "k + 1 \<le> 1024" by simp
    then have "pow2 (k + 1) \<le> pow2 1024" by (rule pow2_mono)
    with assms ilog2_bounds [OF a] show False by (simp add: k_def)
  qed
  then have e: "e = k - 52" by (simp add: e_def)
  have "pow2 52 * pow2 e = pow2 k"
    unfolding e pow2_add [symmetric] by (rule arg_cong [where f = pow2]) simp
  moreover have "pow2 k \<le> \<bar>x\<bar>" using ilog2_bounds [OF a] by (simp add: k_def)
  ultimately have "pow2 52 \<le> \<bar>x\<bar> / pow2 e"
    using pow2_pos [of e] by (simp add: pos_le_divide_eq)
  then have "(of_int (2 ^ 52) :: rat) \<le> \<bar>x\<bar> / pow2 e"
    by (simp add: pow2_def)
  then have "2 ^ 52 \<le> round_half_even (\<bar>x\<bar> / pow2 e)"
    by (rule round_half_even_ge)
  then have "(of_int (2 ^ 52) :: rat) \<le> of_int (round_half_even (\<bar>x\<bar> / pow2 e))"
    by (simp only: of_int_le_iff)
  then have "pow2 52 * pow2 e \<le> of_int (round_half_even (\<bar>x\<bar> / pow2 e)) * pow2 e"
    using pow2_pos [of e] by (simp add: pow2_def)
  with \<open>pow2 52 * pow2 e = pow2 k\<close> have "pow2 k \<le> of_int (round_half_even (\<bar>x\<bar> / pow2 e)) * pow2 e"
    by simp
  moreover have "pow2 1024 \<le> pow2 k" using \<open>1024 \<le> k\<close> by (rule pow2_mono)
  ultimately have "pow2 1024 \<le> of_int (round_half_even (\<bar>x\<bar> / pow2 e)) * pow2 e"
    by simp
  then show ?thesis
    using x unfolding double_of_def Let_def k_def [symmetric] e_def [symmetric]
    by simp
qed

section \<open>The growth rate\<close>

lemma growth_total: "\<exists>g. calculate_growth_rate c p = Inr g"
  by (simp add: calculate_growth_rate_def fdiv_def split: option.splits)

lemma growth_None_prev: "calculate_growth_rate c None = Inr None"
  by (simp add: calculate_growth_rate_def split: option.splits)

lemma growth_nonzero:
  "\<not> feq p (Finite 0) \<Longrightarrow>
     calculate_growth_rate (Some c) (Some p)
       = Inr (Some (py_round (fmul (fquot (fsub c p) p) (Finite 100)) 2))"
  by (simp add: calculate_growth_rate_def fdiv_def)

text \<open>
  C2, as stated, fails on the code. The claim gives 0.0 only for a zero \<open>previous\<close> with
  \<open>current == 0\<close> and the quotient formula in every remaining case. For a NaN \<open>current\<close>
  and a zero \<open>previous\<close> none of the three zero-base comparisons holds, so the claim
  asks for the quotient, a division by zero; the code returns 0.0 from the final
  \<open>else\<close> of line 32.
\<close>

theorem growth_nan_counterexample:
  "calculate_growth_rate (Some NaN) (Some (Finite 0)) = Inr (Some (Finite 0))
   \<and> yoyGrowth_spec (Some NaN) (Some (Finite 0)) = Inl ZeroDivisionError"
  by (simp add: calculate_growth_rate_def yoyGrowth_spec_def feq_def fgt_def fdiv_def)

text \<open>
  C2, amended: the growth function returns null if either operand is null; for
  \<open>previous == 0\<close> it returns plus infinity if \<open>current > 0\<close>, minus infinity if
  \<open>current < 0\<close>, and 0.0 in every other case (\<open>current\<close> zero or NaN); for
  \<open>previous != 0\<close> it returns \<open>((current - previous) / previous) * 100\<close>, each operation
  in float arithmetic, rounded to 2 decimal places, and never raises.
\<close>

theorem growth_rate_amended:
  "(c = None \<or> p = None \<longrightarrow> calculate_growth_rate c p = Inr None)
   \<and> (feq y (Finite 0) \<and> fgt x (Finite 0) \<longrightarrow>
        calculate_growth_rate (Some x) (Some y) = Inr (Some PInf))
   \<and> (feq y (Finite 0) \<and> flt x (Finite 0) \<longrightarrow>
        calculate_growth_rate (Some x) (Some y) = Inr (Some NInf))
   \<and> (feq y (Finite 0) \<and> \<not> fgt x (Finite 0) \<and> \<not> flt x (Finite 0) \<longrightarrow>
        calculate_growth_rate (Some x) (Some y) = Inr (Some (Finite 0)))
   \<and> (\<not> feq y (Finite 0) \<longrightarrow>
        calculate_growth_rate (Some x) (Some y)
          = Inr (Some (py_round (fmul (fquot (fsub x y) y) (Finite 100)) 2)))"
proof (intro conjI impI)
  assume "c = None \<or> p = None"
  then show "calculate_growth_rate c p = Inr None"
    by (auto simp: calculate_growth_rate_def split: option.splits)
next
  assume "feq y (Finite 0) \<and> fgt x (Finite 0)"
  then show "calculate_growth_rate (Some x) (Some y) = Inr (Some PInf)"
    by (simp add: calculate_growth_rate_def)
next
  assume h: "feq y (Finite 0) \<and> flt x (Finite 0)"
  then have "\<not> fgt x (Finite 0)"
    by (simp add: flt_not_fgt)
  with h show "calculate_growth_rate (Some x) (Some y) = Inr (Some NInf)"
    by (simp add: calculate_growth_rate_def)
next
  assume "feq y (Finite 0) \<and> \<not> fgt x (Finite 0) \<and> \<not> flt x (Finite 0)"
  then show "calculate_growth_rate (Some x) (Some y) = Inr (Some (Finite 0))"
    by (simp add: calculate_growth_rate_def)
next
  assume "\<not> feq y (Finite 0)"
  then show "calculate_growth_rate (Some x) (Some y)
          = Inr (Some (py_round (fmul (fquot (fsub x y) y) (Finite 100)) 2))"
    by (simp add: calculate_growth_rate_def fdiv_def)
qed

theorem growth_rate_amended_witness:
  "calculate_growth_rate None (Some (Finite 100)) = Inr None
   \<and> calculate_growth_rate (Some (Finite 120)) (Some (Finite 0)) = Inr (Some PInf)
   \<and> calculate_growth_rate (Some (Finite (- 50))) (Some (Finite 0)) = Inr (Some NInf)
   \<and> calculate_growth_rate (Some (Finite 0)) (Some (Finite 0)) = Inr (Some (Finite 0))
   \<and> calculate_growth_rate (Some NaN) (Some (Finite 0)) = Inr (Some (Finite 0))
   \<and> calculate_growth_rate (Some PInf) (Some (Finite 100)) = Inr (Some PInf)
   \<and> calculate_growth_rate (Some (Finite 110)) (Some (Finite 100)) = Inr (Some (Finite 10))
   \<and> calculate_growth_rate (Some (Finite 327)) (Some (Finite 800))
       = Inr (Some (Finite (- (8321807686450545 / 140737488355328))))
   \<and> calculate_growth_rate (Some (Finite 20001)) (Some (Finite 20000))
       = Inr (Some (Finite (5764607523034235 / 576460752303423488)))
   \<and> calculate_growth_rate (Some (Finite (2 ^ 1023))) (Some (Finite (- (2 ^ 1023))))
       = Inr (Some NInf)"
proof -
  note gra = growth_rate_amended
  have w1: "calculate_growth_rate None (Some (Finite 100)) = Inr None"
    using gra [of None "Some (Finite 100)" "Finite 0" "Finite 0"] by simp
  have w2: "calculate_growth_rate (Some (Finite 120)) (Some (Finite 0)) = Inr (Some PInf)"
    using gra [of None None "Finite 0" "Finite 120"] by (simp add: feq_def fgt_def)
  have w3: "calculate_growth_rate (Some (Finite (- 50))) (Some (Finite 0)) = Inr (Some NInf)"
    using gra [of None None "Finite 0" "Finite (- 50)"] by (simp add: feq_def)
  have w4: "calculate_growth_rate (Some (Finite 0)) (Some (Finite 0)) = Inr (Some (Finite 0))"
    using gra [of None None "Finite 0" "Finite 0"] by (simp add: feq_def fgt_def)
  have w5: "calculate_growth_rate (Some NaN) (Some (Finite 0)) = Inr (Some (Finite 0))"
    using gra [of None None "Finite 0" NaN] by (simp add: feq_def fgt_def)
  have w6: "calculate_growth_rate (Some PInf) (Some (Finite 100)) = Inr (Some PInf)"
    using gra [of None None "Finite 100" PInf] by (simp add: feq_def signed_inf_def)
  have a1: "fsub (Finite 110) (Finite 100) = Finite 10"
    unfolding fsub.simps
    by (rule double_of_cert [where k = "3" and m = 5629499534213120 and e = "- 49"])
       (simp_all add: pow2_def)
  have a2: "fquot (Finite 10) (Finite 100) = Finite (3602879701896397 / 36028797018963968)"
    unfolding fquot.simps
    by (rule double_of_cert [where k = "- 4" and m = 7205759403792794 and e = "- 56"])
       (simp_all add: pow2_def)
  have a3: "fmul (Finite (3602879701896397 / 36028797018963968)) (Finite 100) = Finite 10"
    unfolding fmul.simps
    by (rule double_of_cert [where k = "3" and m = 5629499534213120 and e = "- 49"])
       (simp_all add: pow2_def)
  have a4_r: "round_half_even (10 * 10 ^ 2) = 1000"
    by (rule round_half_even_unique) simp
  have a4: "py_round (Finite 10) 2 = double_of 10"
    unfolding py_round.simps round_rat_def a4_r by simp
  have an: "\<not> feq (Finite 100) (Finite 0)"
    by (simp add: feq_def)
  note ag = growth_rate_amended [where c = None and p = None and x = "Finite 110" and y = "Finite 100",
      THEN conjunct2, THEN conjunct2, THEN conjunct2, THEN conjunct2, rule_format, OF an]
  have a: "calculate_growth_rate (Some (Finite 110)) (Some (Finite 100))
          = Inr (Some (double_of 10))"
    unfolding ag a1 a2 a3 a4 ..
  have va: "double_of 10 = Finite 10"
    by (rule double_of_cert [where k = "3" and m = 5629499534213120 and e = "- 49"])
       (simp_all add: pow2_def)
  have w7: "calculate_growth_rate (Some (Finite 110)) (Some (Finite 100)) = Inr (Some (Finite 10))"
    unfolding a va ..
  have b1: "fsub (Finite 327) (Finite 800) = Finite (- 473)"
    unfolding fsub.simps
    by (rule double_of_cert [where k = "8" and m = 8321103999008768 and e = "- 44"])
       (simp_all add: pow2_def)
  have b2: "fquot (Finite (- 473)) (Finite 800) = Finite (- (1331376639841403 / 2251799813685248))"
    unfolding fquot.simps
    by (rule double_of_cert [where k = "- 1" and m = 5325506559365612 and e = "- 53"])
       (simp_all add: pow2_def)
  have b3: "fmul (Finite (- (1331376639841403 / 2251799813685248))) (Finite 100) = Finite (- (8321103999008769 / 140737488355328))"
    unfolding fmul.simps
    by (rule double_of_cert [where k = "5" and m = 8321103999008769 and e = "- 47"])
       (simp_all add: pow2_def)
  have b4_r: "round_half_even ((- (8321103999008769 / 140737488355328)) * 10 ^ 2) = - 5913"
    by (rule round_half_even_unique) simp
  have b4: "py_round (Finite (- (8321103999008769 / 140737488355328))) 2 = double_of (- (5913 / 100))"
    unfolding py_round.simps round_rat_def b4_r by simp
  have bn: "\<not> feq (Finite 800) (Finite 0)"
    by (simp add: feq_def)
  note bg = growth_rate_amended [where c = None and p = None and x = "Finite 327" and y = "Finite 800",
      THEN conjunct2, THEN conjunct2, THEN conjunct2, THEN conjunct2, rule_format, OF bn]
  have b: "calculate_growth_rate (Some (Finite 327)) (Some (Finite 800))
          = Inr (Some (double_of (- (5913 / 100))))"
    unfolding bg b1 b2 b3 b4 ..
  have vb: "double_of (- (5913 / 100)) = Finite (- (8321807686450545 / 140737488355328))"
    by (rule double_of_cert [where k = "5" and m = 8321807686450545 and e = "- 47"])
       (simp_all add: pow2_def)
  have w8: "calculate_growth_rate (Some (Finite 327)) (Some (Finite 800))
          = Inr (Some (Finite (- (8321807686450545 / 140737488355328))))"
    unfolding b vb ..
  have c1: "fsub (Finite 20001) (Finite 20000) = Finite 1"
    unfolding fsub.simps
    by (rule double_of_cert [where k = "0" and m = 4503599627370496 and e = "- 52"])
       (simp_all add: pow2_def)
  have c2: "fquot (Finite 1) (Finite 20000) = Finite (7378697629483821 / 147573952589676412928)"
    unfolding fquot.simps
    by (rule double_of_cert [where k = "- 15" and m = 7378697629483821 and e = "- 67"])
       (simp_all add: pow2_def)
  have c3: "fmul (Finite (7378697629483821 / 147573952589676412928)) (Finite 100) = Finite (5764607523034235 / 1152921504606846976)"
    unfolding fmul.simps
    by (rule double_of_cert [where k = "- 8" and m = 5764607523034235 and e = "- 60"])
       (simp_all add: pow2_def)
  have c4_r: "round_half_even ((5764607523034235 / 1152921504606846976) * 10 ^ 2) = 1"
    by (rule round_half_even_unique) simp
  have c4: "py_round (Finite (5764607523034235 / 1152921504606846976)) 2 = double_of (1 / 100)"
    unfolding py_round.simps round_rat_def c4_r by simp
  have cn: "\<not> feq (Finite 20000) (Finite 0)"
    by (simp add: feq_def)
  note cg = growth_rate_amended [where c = None and p = None and x = "Finite 20001" and y = "Finite 20000",
      THEN conjunct2, THEN conjunct2, THEN conjunct2, THEN conjunct2, rule_format, OF cn]
  have c: "calculate_growth_rate (Some (Finite 20001)) (Some (Finite 20000))
          = Inr (Some (double_of (1 / 100)))"
    unfolding cg c1 c2 c3 c4 ..
  have vc: "double_of (1 / 100) = Finite (5764607523034235 / 576460752303423488)"
    by (rule double_of_cert [where k = "- 7" and m = 5764607523034235 and e = "- 59"])
       (simp_all add: pow2_def)
  have w9: "calculate_growth_rate (Some (Finite 20001)) (Some (Finite 20000))
          = Inr (Some (Finite (5764607523034235 / 576460752303423488)))"
    unfolding c vc ..
  have o1: "fsub (Finite (2 ^ 1023)) (Finite (- (2 ^ 1023))) = PInf"
    unfolding fsub.simps
    using double_of_overflow [of "2 ^ 1023 - - (2 ^ 1023)"] by (simp add: pow2_def)
  have o2: "fquot PInf (Finite (- (2 ^ 1023))) = NInf"
    by (simp add: signed_inf_def)
  have o3: "fmul NInf (Finite 100) = NInf"
    by (simp add: signed_inf_def)
  have o4: "py_round NInf 2 = NInf"
    by simp
  have on: "\<not> feq (Finite (- (2 ^ 1023))) (Finite 0)"
    by (simp add: feq_def)
  note og = gra [where c = None and p = None and x = "Finite (2 ^ 1023)"
      and y = "Finite (- (2 ^ 1023))",
      THEN conjunct2, THEN conjunct2, THEN conjunct2, THEN conjunct2, rule_format, OF on]
  have w10: "calculate_growth_rate (Some (Finite (2 ^ 1023))) (Some (Finite (- (2 ^ 1023))))
          = Inr (Some NInf)"
    unfolding og o1 o2 o3 o4 ..
  show ?thesis
    by (intro conjI w1 w2 w3 w4 w5 w6 w7 w8 w9 w10)
qed

section \<open>The health assessment\<close>

lemma health_net_income_step:
  "health_net_income v (s, n) = (s + positive_points v, n + (if v \<noteq> None then 1 else 0))"
  by (cases v) (simp_all add: health_net_income_def positive_points_def)

lemma health_cash_step:
  "health_cash v (s, n) = (s + positive_points v, n + (if v \<noteq> None then 1 else 0))"
  by (cases v) (simp_all add: health_cash_def positive_points_def)

lemma health_current_ratio_step:
  "health_current_ratio v (s, n)
     = (s + current_ratio_points v, n + (if usable_ratio v then 1 else 0))"
proof (cases v)
  case None
  then show ?thesis
    by (simp add: health_current_ratio_def current_ratio_points_def usable_ratio_def)
next
  case (Some x)
  then show ?thesis
    by (cases x)
       (auto simp: health_current_ratio_def current_ratio_points_def usable_ratio_def
          isinf_def isnan_def fge_def fle_def feq_def)
qed

lemma health_debt_to_equity_step:
  "health_debt_to_equity v (s, n)
     = (s + debt_to_equity_points v, n + (if usable_ratio v then 1 else 0))"
proof (cases v)
  case None
  then show ?thesis
    by (simp add: health_debt_to_equity_def debt_to_equity_points_def usable_ratio_def)
next
  case (Some x)
  then show ?thesis
    by (cases x)
       (auto simp: health_debt_to_equity_def debt_to_equity_points_def usable_ratio_def
          isinf_def isnan_def fgt_def fle_def feq_def)
qed

lemma health_state:
  "health_debt_to_equity de
     (health_current_ratio cr (health_cash cf (health_net_income ni (0, 0))))
     = (score_spec ni cf cr de, factors_spec ni cf cr de)"
  by (simp add: health_net_income_step health_cash_step health_current_ratio_step
        health_debt_to_equity_step score_spec_def factors_spec_def)

text \<open>
  C3: the health assessment is null when all four inputs are null or no factor is
  usable; otherwise the label is read off the additive score, which the code's
  sequential counters compute: "Strong" from 2, "Stable" from 0, "Concerning" below.
\<close>

theorem health_assessment:
  "assess_financial_health ni cf cr de =
     (if (ni = None \<and> cf = None \<and> cr = None \<and> de = None) \<or> factors_spec ni cf cr de = 0
      then None
      else if 2 \<le> score_spec ni cf cr de then Some ''Strong''
      else if 0 \<le> score_spec ni cf cr de then Some ''Stable''
      else Some ''Concerning'')"
  unfolding assess_financial_health_def health_state Let_def
  by simp

theorem health_assessment_witness:
  "assess_financial_health (Some (Finite 10)) (Some (Finite 10)) (Some (Finite 2))
       (Some (Finite (1 / 2))) = Some ''Strong''
   \<and> assess_financial_health (Some (Finite (- 10))) (Some (Finite (- 10)))
       (Some (Finite (1 / 2))) (Some (Finite 3)) = Some ''Concerning''
   \<and> assess_financial_health None None (Some PInf) (Some NaN) = None
   \<and> assess_financial_health None None None None = None
   \<and> assess_financial_health (Some (Finite 1)) None (Some (Finite (5 / 4))) (Some (Finite 2))
       = Some ''Stable''"
  unfolding health_assessment
  by (simp add: factors_spec_def score_spec_def usable_ratio_def positive_points_def
        current_ratio_points_def debt_to_equity_points_def fgt_def)

section \<open>The three classifiers\<close>

text \<open>
  C4, as stated, fails on the code: a net margin of 0.25 is labelled
  "High Profitability", not "High".
\<close>

theorem classifier_labels_counterexample:
  "assess_profitability (Some (Finite (1 / 4))) = Some ''High Profitability''
   \<and> assess_profitability (Some (Finite (1 / 4))) \<noteq> Some ''High''"
  by (simp add: assess_profitability_def fge_def fle_def feq_def)

text \<open>
  C4, amended: each classifier returns null on null input; the valuation labels are
  those of the claim; the profitability labels are "High Profitability",
  "Moderate Profitability", "Low Profitability" and "Unprofitable", and the liquidity
  labels "Strong Liquidity", "Adequate Liquidity" and "Weak Liquidity", on the
  intervals of the claim.
\<close>

theorem classifier_labels_amended:
  "assess_valuation None = None \<and> assess_profitability None = None
   \<and> assess_liquidity None = None
   \<and> (flt v (Finite 15) \<longrightarrow> assess_valuation (Some v) = Some ''Potentially Undervalued'')
   \<and> (fle (Finite 15) v \<and> fle v (Finite 25) \<longrightarrow>
        assess_valuation (Some v) = Some ''Fairly Valued'')
   \<and> (fgt v (Finite 25) \<longrightarrow> assess_valuation (Some v) = Some ''Potentially Overvalued'')
   \<and> (fge v (Finite (1 / 5)) \<longrightarrow> assess_profitability (Some v) = Some ''High Profitability'')
   \<and> (fle (Finite (1 / 10)) v \<and> flt v (Finite (1 / 5)) \<longrightarrow>
        assess_profitability (Some v) = Some ''Moderate Profitability'')
   \<and> (fle (Finite 0) v \<and> flt v (Finite (1 / 10)) \<longrightarrow>
        assess_profitability (Some v) = Some ''Low Profitability'')
   \<and> (flt v (Finite 0) \<longrightarrow> assess_profitability (Some v) = Some ''Unprofitable'')
   \<and> (fge v (Finite 2) \<longrightarrow> assess_liquidity (Some v) = Some ''Strong Liquidity'')
   \<and> (fle (Finite 1) v \<and> flt v (Finite 2) \<longrightarrow>
        assess_liquidity (Some v) = Some ''Adequate Liquidity'')
   \<and> (flt v (Finite 1) \<longrightarrow> assess_liquidity (Some v) = Some ''Weak Liquidity'')"
  by (cases v)
     (simp_all add: assess_valuation_def assess_profitability_def assess_liquidity_def
        fge_def fle_def fgt_def feq_def)

theorem classifier_labels_amended_witness:
  "assess_valuation (Some (Finite 10)) = Some ''Potentially Undervalued''
   \<and> assess_valuation (Some (Finite 25)) = Some ''Fairly Valued''
   \<and> assess_valuation (Some PInf) = Some ''Potentially Overvalued''
   \<and> assess_profitability (Some (Finite (1 / 5))) = Some ''High Profitability''
   \<and> assess_profitability (Some (Finite (3 / 20))) = Some ''Moderate Profitability''
   \<and> assess_profitability (Some (Finite 0)) = Some ''Low Profitability''
   \<and> assess_profitability (Some (Finite (- 1))) = Some ''Unprofitable''
   \<and> assess_liquidity (Some (Finite 2)) = Some ''Strong Liquidity''
   \<and> assess_liquidity (Some (Finite 1)) = Some ''Adequate Liquidity''
   \<and> assess_liquidity (Some (Finite (1 / 2))) = Some ''Weak Liquidity''"
proof (intro conjI)
  show "assess_valuation (Some (Finite 10)) = Some ''Potentially Undervalued''"
    using classifier_labels_amended [of "Finite 10"] by simp
  show "assess_valuation (Some (Finite 25)) = Some ''Fairly Valued''"
    using classifier_labels_amended [of "Finite 25"] by (simp add: fle_def feq_def)
  show "assess_valuation (Some PInf) = Some ''Potentially Overvalued''"
    using classifier_labels_amended [of PInf] by (simp add: fgt_def)
  show "assess_profitability (Some (Finite (1 / 5))) = Some ''High Profitability''"
    using classifier_labels_amended [of "Finite (1 / 5)"] by (simp add: fge_def fle_def feq_def)
  show "assess_profitability (Some (Finite (3 / 20))) = Some ''Moderate Profitability''"
    using classifier_labels_amended [of "Finite (3 / 20)"] by (simp add: fle_def feq_def)
  show "assess_profitability (Some (Finite 0)) = Some ''Low Profitability''"
    using classifier_labels_amended [of "Finite 0"] by (simp add: fle_def feq_def)
  show "assess_profitability (Some (Finite (- 1))) = Some ''Unprofitable''"
    using classifier_labels_amended [of "Finite (- 1)"] by simp
  show "assess_liquidity (Some (Finite 2)) = Some ''Strong Liquidity''"
    using classifier_labels_amended [of "Finite 2"] by (simp add: fge_def fle_def feq_def)
  show "assess_liquidity (Some (Finite 1)) = Some ''Adequate Liquidity''"
    using classifier_labels_amended [of "Finite 1"] by (simp add: fle_def feq_def)
  show "assess_liquidity (Some (Finite (1 / 2))) = Some ''Weak Liquidity''"
    using classifier_labels_amended [of "Finite (1 / 2)"] by simp
qed

section \<open>Concept resolution\<close>

lemma find_concept_loop_find:
  "find_concept_loop items c = map_option item_out (find (\<lambda>i. ri_concept i = c) items)"
  by (induction items) simp_all

lemma find_concept_value_find:
  "find_concept_value (Some items) c = map_option item_out (find (\<lambda>i. ri_concept i = c) items)"
  by (cases items) (simp_all add: find_concept_value_def find_concept_loop_find)

lemma find_concept_value_resolve: "find_concept_value items c = resolve_spec items [c]"
proof (cases items)
  case None
  then show ?thesis by (simp add: find_concept_value_def)
next
  case (Some l)
  then show ?thesis
    by (simp add: find_concept_value_find split: option.splits)
qed

lemma revenue_resolve:
  "is_revenue (income_statement_block items)
     = resolve_spec items [''us-gaap_Revenues'', ''us-gaap_SalesRevenueNet'']"
proof (cases items)
  case None
  then show ?thesis by (simp add: income_statement_block_def truthy_items_def)
next
  case (Some l)
  show ?thesis
  proof (cases "l = []")
    case True
    with Some show ?thesis by (simp add: income_statement_block_def truthy_items_def)
  next
    case False
    with Some show ?thesis
      by (simp add: income_statement_block_def truthy_items_def Let_def find_concept_value_find
            split: option.splits)
  qed
qed

lemma resolve_spec_no_match:
  "\<forall>i \<in> set l. ri_concept i \<notin> set cs \<Longrightarrow> resolve_spec (Some l) cs = None"
proof (induction cs)
  case Nil
  show ?case by simp
next
  case (Cons c cs)
  then have "find (\<lambda>i. ri_concept i = c) l = None"
    by (auto simp: find_None_iff)
  with Cons show ?case by simp
qed

lemma find_first_match:
  "ri_concept i = c \<Longrightarrow> \<forall>j \<in> set pre. ri_concept j \<noteq> c \<Longrightarrow>
     find (\<lambda>i. ri_concept i = c) (pre @ i # post) = Some i"
  by (induction pre) simp_all

text \<open>
  C6: a lookup returns the first item in document order whose concept is the one asked
  for, as the specification's resolver does on a one-element candidate list; the
  revenue slot is the resolver on the candidates "us-gaap\_Revenues",
  "us-gaap\_SalesRevenueNet" in this order, so the first tag wins wherever the second
  stands in the document; the result is null for an absent list and when nothing
  matches; a matched item whose value is not numeric yields an item with a null value.
\<close>

theorem concept_resolution:
  "find_concept_value items c = resolve_spec items [c]
   \<and> is_revenue (income_statement_block items)
       = resolve_spec items [''us-gaap_Revenues'', ''us-gaap_SalesRevenueNet'']
   \<and> resolve_spec None cs = None
   \<and> ((\<forall>i \<in> set l. ri_concept i \<notin> set cs) \<longrightarrow> resolve_spec (Some l) cs = None)
   \<and> (ri_concept i = c \<and> (\<forall>j \<in> set pre. ri_concept j \<noteq> c) \<longrightarrow>
        find_concept_value (Some (pre @ i # post)) c
          = Some \<lparr>fi_label = ri_label i, fi_value = numeric_value (ri_value i),
                  fi_unit = Some (ri_unit i)\<rparr>)
   \<and> (ri_concept i = ''us-gaap_Revenues''
        \<and> (\<forall>j \<in> set pre. ri_concept j \<noteq> ''us-gaap_Revenues'') \<longrightarrow>
        is_revenue (income_statement_block (Some (pre @ i # post))) = Some (item_out i))
   \<and> numeric_value VNone = None \<and> numeric_value (VStr s) = None"
proof (intro conjI impI)
  show "find_concept_value items c = resolve_spec items [c]"
    by (rule find_concept_value_resolve)
  show "is_revenue (income_statement_block items)
       = resolve_spec items [''us-gaap_Revenues'', ''us-gaap_SalesRevenueNet'']"
    by (rule revenue_resolve)
  show "resolve_spec None cs = None"
    by (cases cs) simp_all
  show "resolve_spec (Some l) cs = None" if "\<forall>i \<in> set l. ri_concept i \<notin> set cs"
    using that by (rule resolve_spec_no_match)
  show "find_concept_value (Some (pre @ i # post)) c
          = Some \<lparr>fi_label = ri_label i, fi_value = numeric_value (ri_value i),
                  fi_unit = Some (ri_unit i)\<rparr>"
    if "ri_concept i = c \<and> (\<forall>j \<in> set pre. ri_concept j \<noteq> c)"
    using that by (simp add: find_concept_value_find find_first_match item_out_def)
  show "is_revenue (income_statement_block (Some (pre @ i # post))) = Some (item_out i)"
    if "ri_concept i = ''us-gaap_Revenues''
        \<and> (\<forall>j \<in> set pre. ri_concept j \<noteq> ''us-gaap_Revenues'')"
    using that by (simp add: revenue_resolve find_first_match)
  show "numeric_value VNone = None" by simp
  show "numeric_value (VStr s) = None" by simp
qed

theorem concept_resolution_witness:
  "(let sales = \<lparr>ri_concept = ''us-gaap_SalesRevenueNet'', ri_unit = ''usd'',
                  ri_label = ''Net sales'', ri_value = VFloat (Finite 90)\<rparr>;
        revenues = \<lparr>ri_concept = ''us-gaap_Revenues'', ri_unit = ''usd'',
                     ri_label = ''Revenues'', ri_value = VStr ''n/a''\<rparr>
    in is_revenue (income_statement_block (Some [sales, revenues]))
         = Some \<lparr>fi_label = ''Revenues'', fi_value = None, fi_unit = Some ''usd''\<rparr>
       \<and> find_concept_value (Some [sales, revenues]) ''us-gaap_SalesRevenueNet''
           = Some \<lparr>fi_label = ''Net sales'', fi_value = Some (Finite 90), fi_unit = Some ''usd''\<rparr>
       \<and> resolve_spec (Some [sales, revenues]) [''us-gaap_GrossProfit''] = None
       \<and> find_concept_value (Some [sales, revenues]) ''us-gaap_GrossProfit'' = None)"
proof -
  let ?sales = "\<lparr>ri_concept = ''us-gaap_SalesRevenueNet'', ri_unit = ''usd'',
                  ri_label = ''Net sales'', ri_value = VFloat (Finite 90)\<rparr>"
  let ?revenues = "\<lparr>ri_concept = ''us-gaap_Revenues'', ri_unit = ''usd'',
                     ri_label = ''Revenues'', ri_value = VStr ''n/a''\<rparr>"
  have a: "is_revenue (income_statement_block (Some [?sales, ?revenues]))
             = Some \<lparr>fi_label = ''Revenues'', fi_value = None, fi_unit = Some ''usd''\<rparr>"
    using concept_resolution [where items = None and c = "[]" and cs = "[]" and l = "[]"
        and i = ?revenues and pre = "[?sales]" and post = "[]" and s = "[]"]
    by (simp add: item_out_def)
  have b: "find_concept_value (Some [?sales, ?revenues]) ''us-gaap_SalesRevenueNet''
           = Some \<lparr>fi_label = ''Net sales'', fi_value = Some (Finite 90), fi_unit = Some ''usd''\<rparr>"
    using concept_resolution [where items = None and c = "''us-gaap_SalesRevenueNet''"
        and cs = "[]" and l = "[]" and i = ?sales and pre = "[]" and post = "[?revenues]"
        and s = "[]"]
    by simp
  have c: "resolve_spec (Some [?sales, ?revenues]) [''us-gaap_GrossProfit''] = None"
    using concept_resolution [where items = None and c = "[]"
        and cs = "[''us-gaap_GrossProfit'']" and l = "[?sales, ?revenues]" and i = ?sales
        and pre = "[]" and post = "[]" and s = "[]"]
    by simp
  have d: "find_concept_value (Some [?sales, ?revenues]) ''us-gaap_GrossProfit'' = None"
    using concept_resolution [where items = "Some [?sales, ?revenues]"
        and c = "''us-gaap_GrossProfit''" and cs = "[]" and l = "[]" and i = ?sales
        and pre = "[]" and post = "[]" and s = "[]"]
    by simp
  show ?thesis
    unfolding Let_def using a b c d by blast
qed

section \<open>Selection of the annual filings\<close>

lemma py_sorted_reverse_mset: "mset (py_sorted_reverse k xs) = mset xs"
  by (simp add: py_sorted_reverse_def)

lemma py_sorted_reverse_desc: "sorted_wrt (\<lambda>a b. k b \<le> k a) (py_sorted_reverse k xs)"
proof -
  have "sorted (map k (sort_key k (rev xs)))" by simp
  then have "sorted_wrt (\<lambda>a b. k a \<le> k b) (sort_key k (rev xs))"
    by (simp only: sorted_wrt_map)
  then show ?thesis
    by (simp add: py_sorted_reverse_def sorted_wrt_rev)
qed

lemma py_sorted_reverse_stable:
  "filter (\<lambda>y. k y = v) (py_sorted_reverse k xs) = filter (\<lambda>y. k y = v) xs"
  by (simp add: py_sorted_reverse_def sort_key_stable flip: rev_filter)

text \<open>
  C5: the selection keeps exactly the records with quarter 0, form "10-K" and a report
  present; the kept records are in descending order of the end-date key under string
  comparison; the key of a missing end date is the empty string, so such records come
  last; records with equal keys keep their upstream relative order.
\<close>

theorem annual_filings_selection:
  "mset (annual_filings data) = mset (filter is_annual_filing data)
   \<and> (is_annual_filing f \<longleftrightarrow> fd_quarter f = 0 \<and> fd_form f = ''10-K'' \<and> fd_report f \<noteq> None)
   \<and> sorted_wrt (\<lambda>a b. end_date_key b \<le> end_date_key a) (annual_filings data)
   \<and> (end_date_key f = (case fd_endDate f of None \<Rightarrow> [] | Some d \<Rightarrow> d))
   \<and> (\<forall>i j. i < j \<and> j < length (annual_filings data)
          \<and> end_date_key (annual_filings data ! i) = [] \<longrightarrow>
          end_date_key (annual_filings data ! j) = [])
   \<and> (\<forall>v. filter (\<lambda>y. end_date_key y = v) (annual_filings data)
          = filter (\<lambda>y. end_date_key y = v) (filter is_annual_filing data))"
proof (intro conjI allI impI)
  show "mset (annual_filings data) = mset (filter is_annual_filing data)"
    by (simp add: annual_filings_def py_sorted_reverse_mset)
  show "is_annual_filing f \<longleftrightarrow> fd_quarter f = 0 \<and> fd_form f = ''10-K'' \<and> fd_report f \<noteq> None"
    by (simp add: is_annual_filing_def)
  show s: "sorted_wrt (\<lambda>a b. end_date_key b \<le> end_date_key a) (annual_filings data)"
    unfolding annual_filings_def by (rule py_sorted_reverse_desc)
  show "end_date_key f = (case fd_endDate f of None \<Rightarrow> [] | Some d \<Rightarrow> d)"
    by (simp add: end_date_key_def split: option.splits)
  show "end_date_key (annual_filings data ! j) = []"
    if "i < j \<and> j < length (annual_filings data) \<and> end_date_key (annual_filings data ! i) = []"
    for i j
  proof -
    from that have "i < j" and "j < length (annual_filings data)" by simp_all
    with s have "end_date_key (annual_filings data ! j) \<le> end_date_key (annual_filings data ! i)"
      by (rule sorted_wrt_nth_less)
    with that show ?thesis by simp
  qed
  show "filter (\<lambda>y. end_date_key y = v) (annual_filings data)
          = filter (\<lambda>y. end_date_key y = v) (filter is_annual_filing data)" for v
    unfolding annual_filings_def by (rule py_sorted_reverse_stable)
qed

theorem annual_filings_selection_witness:
  "(let q1 = \<lparr>fd_accessNumber = ''a1'', fd_symbol = ''ACME'', fd_cik = ''1'', fd_year = 2023,
             fd_quarter = 1, fd_form = ''10-Q'', fd_startDate = None, fd_endDate = Some ''2023-03-31'',
             fd_filedDate = None, fd_acceptedDate = None,
             fd_report = Some \<lparr>rep_bs = None, rep_ic = None, rep_cf = None\<rparr>\<rparr>;
        k22 = \<lparr>fd_accessNumber = ''a2'', fd_symbol = ''ACME'', fd_cik = ''1'', fd_year = 2022,
             fd_quarter = 0, fd_form = ''10-K'', fd_startDate = None, fd_endDate = Some ''2022-12-31'',
             fd_filedDate = None, fd_acceptedDate = None,
             fd_report = Some \<lparr>rep_bs = None, rep_ic = None, rep_cf = None\<rparr>\<rparr>;
        kna = \<lparr>fd_accessNumber = ''a3'', fd_symbol = ''ACME'', fd_cik = ''1'', fd_year = 2021,
             fd_quarter = 0, fd_form = ''10-K'', fd_startDate = None, fd_endDate = None,
             fd_filedDate = None, fd_acceptedDate = None,
             fd_report = Some \<lparr>rep_bs = None, rep_ic = None, rep_cf = None\<rparr>\<rparr>;
        k23 = \<lparr>fd_accessNumber = ''a4'', fd_symbol = ''ACME'', fd_cik = ''1'', fd_year = 2023,
             fd_quarter = 0, fd_form = ''10-K'', fd_startDate = None, fd_endDate = Some ''2023-12-31'',
             fd_filedDate = None, fd_acceptedDate = None,
             fd_report = Some \<lparr>rep_bs = None, rep_ic = None, rep_cf = None\<rparr>\<rparr>;
        kem = \<lparr>fd_accessNumber = ''a5'', fd_symbol = ''ACME'', fd_cik = ''1'', fd_year = 2020,
             fd_quarter = 0, fd_form = ''10-K'', fd_startDate = None, fd_endDate = Some [],
             fd_filedDate = None, fd_acceptedDate = None,
             fd_report = Some \<lparr>rep_bs = None, rep_ic = None, rep_cf = None\<rparr>\<rparr>;
        data = [q1, k22, kna, k23, kem]
    in annual_filings data = [k23, k22, kna, kem]
       \<and> mset (annual_filings data) = mset [k22, kna, k23, kem]
       \<and> end_date_key (annual_filings data ! 2) = []
       \<and> end_date_key (annual_filings data ! 3) = []
       \<and> filter (\<lambda>y. end_date_key y = []) (annual_filings data) = [kna, kem])"
proof -
  let ?q1 = "\<lparr>fd_accessNumber = ''a1'', fd_symbol = ''ACME'', fd_cik = ''1'', fd_year = 2023,
             fd_quarter = 1, fd_form = ''10-Q'', fd_startDate = None, fd_endDate = Some ''2023-03-31'',
             fd_filedDate = None, fd_acceptedDate = None,
             fd_report = Some \<lparr>rep_bs = None, rep_ic = None, rep_cf = None\<rparr>\<rparr>"
  let ?k22 = "\<lparr>fd_accessNumber = ''a2'', fd_symbol = ''ACME'', fd_cik = ''1'', fd_year = 2022,
             fd_quarter = 0, fd_form = ''10-K'', fd_startDate = None, fd_endDate = Some ''2022-12-31'',
             fd_filedDate = None, fd_acceptedDate = None,
             fd_report = Some \<lparr>rep_bs = None, rep_ic = None, rep_cf = None\<rparr>\<rparr>"
  let ?kna = "\<lparr>fd_accessNumber = ''a3'', fd_symbol = ''ACME'', fd_cik = ''1'', fd_year = 2021,
             fd_quarter = 0, fd_form = ''10-K'', fd_startDate = None, fd_endDate = None,
             fd_filedDate = None, fd_acceptedDate = None,
             fd_report = Some \<lparr>rep_bs = None, rep_ic = None, rep_cf = None\<rparr>\<rparr>"
  let ?k23 = "\<lparr>fd_accessNumber = ''a4'', fd_symbol = ''ACME'', fd_cik = ''1'', fd_year = 2023,
             fd_quarter = 0, fd_form = ''10-K'', fd_startDate = None, fd_endDate = Some ''2023-12-31'',
             fd_filedDate = None, fd_acceptedDate = None,
             fd_report = Some \<lparr>rep_bs = None, rep_ic = None, rep_cf = None\<rparr>\<rparr>"
  let ?kem = "\<lparr>fd_accessNumber = ''a5'', fd_symbol = ''ACME'', fd_cik = ''1'', fd_year = 2020,
             fd_quarter = 0, fd_form = ''10-K'', fd_startDate = None, fd_endDate = Some [],
             fd_filedDate = None, fd_acceptedDate = None,
             fd_report = Some \<lparr>rep_bs = None, rep_ic = None, rep_cf = None\<rparr>\<rparr>"
  let ?data = "[?q1, ?k22, ?kna, ?k23, ?kem]"
  have flt: "filter is_annual_filing ?data = [?k22, ?kna, ?k23, ?kem]"
    by (simp add: is_annual_filing_def)
  have ev: "annual_filings ?data = [?k23, ?k22, ?kna, ?kem]"
    unfolding annual_filings_def flt by (simp add: py_sorted_reverse_def end_date_key_def)
  note sel = annual_filings_selection [where data = ?data and f = ?kna]
  have m: "mset (annual_filings ?data) = mset [?k22, ?kna, ?k23, ?kem]"
    using sel [THEN conjunct1] by (simp only: flt)
  have k2: "end_date_key (annual_filings ?data ! 2) = []"
    by (simp add: ev end_date_key_def)
  note last = sel [THEN conjunct2, THEN conjunct2, THEN conjunct2, THEN conjunct2,
      THEN conjunct1, rule_format, of 2 3]
  have k3: "end_date_key (annual_filings ?data ! 3) = []"
    by (rule last) (simp add: ev end_date_key_def)
  note stable = sel [THEN conjunct2, THEN conjunct2, THEN conjunct2, THEN conjunct2,
      THEN conjunct2, rule_format, of "[]"]
  have st: "filter (\<lambda>y. end_date_key y = []) (annual_filings ?data) = [?kna, ?kem]"
    unfolding stable flt by (simp add: end_date_key_def)
  show ?thesis
    unfolding Let_def by (intro conjI ev m k2 k3 st)
qed

section \<open>The per-filing blocks and the loop\<close>

lemma margin_ratio_eq:
  "margin_ratio n d =
     Inr (case (n, d) of
            (Some a, Some b) \<Rightarrow> if feq b (Finite 0) then None else Some (py_round (fquot a b) 4)
          | _ \<Rightarrow> None)"
  by (simp add: margin_ratio_def fne_def fdiv_def split: option.splits)

lemma balance_ratio_eq: "balance_ratio n d = Inr (ratio_spec n d 2)"
  by (cases n; cases d) (simp_all add: balance_ratio_def ratio_spec_def fne_def fdiv_def)

lemma filing_ratios_total: "\<exists>r. filing_ratios report = Inr r"
  by (simp add: filing_ratios_def calculated_ratios_block_def margin_ratio_eq balance_ratio_eq)

lemma loop_body_ok:
  assumes "fd_report f = Some r"
  shows "\<exists>out. loop_body pv f
            = Inr (out, pv(''revenue'' := current_revenue r,
                           ''net_income_ic'' := current_net_income_ic r))
          \<and> Inr (fo_revenue_growth_yoy_percent out)
              = calculate_growth_rate (current_revenue r) (pv ''revenue'')
          \<and> Inr (fo_net_income_growth_yoy_percent out)
              = calculate_growth_rate (current_net_income_ic r) (pv ''net_income_ic'')"
proof -
  obtain cr where cr: "filing_ratios r = Inr cr"
    using filing_ratios_total by blast
  obtain g1 where g1: "calculate_growth_rate (current_revenue r) (pv ''revenue'') = Inr g1"
    using growth_total by blast
  obtain g2 where g2:
    "calculate_growth_rate (current_net_income_ic r) (pv ''net_income_ic'') = Inr g2"
    using growth_total by blast
  show ?thesis
    unfolding loop_body_def Let_def using assms cr g1 g2 by simp
qed

lemma filings_loop_gen:
  assumes "\<forall>f \<in> set fs. fd_report f \<noteq> None"
  shows "\<exists>outs. filings_loop acc pv fs = Inr (acc @ outs) \<and> length outs = length fs
           \<and> (\<forall>i < length fs.
                Inr (fo_revenue_growth_yoy_percent (outs ! i))
                  = calculate_growth_rate (filing_revenue (fs ! i))
                      (if i = 0 then pv ''revenue'' else filing_revenue (fs ! (i - 1)))
              \<and> Inr (fo_net_income_growth_yoy_percent (outs ! i))
                  = calculate_growth_rate (filing_net_income (fs ! i))
                      (if i = 0 then pv ''net_income_ic''
                       else filing_net_income (fs ! (i - 1))))"
  using assms
proof (induction fs arbitrary: acc pv)
  case Nil
  show ?case by simp
next
  case (Cons f rest)
  then obtain r where r: "fd_report f = Some r" by auto
  let ?pv = "pv(''revenue'' := current_revenue r, ''net_income_ic'' := current_net_income_ic r)"
  from loop_body_ok [OF r, of pv] obtain out where
    out: "loop_body pv f = Inr (out, ?pv)"
    and o1: "Inr (fo_revenue_growth_yoy_percent out)
               = calculate_growth_rate (current_revenue r) (pv ''revenue'')"
    and o2: "Inr (fo_net_income_growth_yoy_percent out)
               = calculate_growth_rate (current_net_income_ic r) (pv ''net_income_ic'')"
    by blast
  from Cons.prems have "\<forall>f \<in> set rest. fd_report f \<noteq> None" by simp
  from Cons.IH [OF this, of "acc @ [out]" ?pv] obtain outs where
    l: "filings_loop (acc @ [out]) ?pv rest = Inr ((acc @ [out]) @ outs)"
    and n: "length outs = length rest"
    and g: "\<forall>i < length rest.
              Inr (fo_revenue_growth_yoy_percent (outs ! i))
                = calculate_growth_rate (filing_revenue (rest ! i))
                    (if i = 0 then ?pv ''revenue'' else filing_revenue (rest ! (i - 1)))
            \<and> Inr (fo_net_income_growth_yoy_percent (outs ! i))
                = calculate_growth_rate (filing_net_income (rest ! i))
                    (if i = 0 then ?pv ''net_income_ic''
                     else filing_net_income (rest ! (i - 1)))"
    by blast
  have fr: "filing_revenue f = current_revenue r" "filing_net_income f = current_net_income_ic r"
    using r by (simp_all add: filing_revenue_def filing_net_income_def)
  have "filings_loop acc pv (f # rest) = Inr (acc @ (out # outs))"
    using out l by simp
  moreover have "length (out # outs) = length (f # rest)"
    using n by simp
  moreover have "\<forall>i < length (f # rest).
                Inr (fo_revenue_growth_yoy_percent ((out # outs) ! i))
                  = calculate_growth_rate (filing_revenue ((f # rest) ! i))
                      (if i = 0 then pv ''revenue'' else filing_revenue ((f # rest) ! (i - 1)))
              \<and> Inr (fo_net_income_growth_yoy_percent ((out # outs) ! i))
                  = calculate_growth_rate (filing_net_income ((f # rest) ! i))
                      (if i = 0 then pv ''net_income_ic''
                       else filing_net_income ((f # rest) ! (i - 1)))"
  proof (intro allI impI)
    fix i assume i: "i < length (f # rest)"
    show "Inr (fo_revenue_growth_yoy_percent ((out # outs) ! i))
                  = calculate_growth_rate (filing_revenue ((f # rest) ! i))
                      (if i = 0 then pv ''revenue'' else filing_revenue ((f # rest) ! (i - 1)))
              \<and> Inr (fo_net_income_growth_yoy_percent ((out # outs) ! i))
                  = calculate_growth_rate (filing_net_income ((f # rest) ! i))
                      (if i = 0 then pv ''net_income_ic''
                       else filing_net_income ((f # rest) ! (i - 1)))"
    proof (cases i)
      case 0
      then show ?thesis using o1 o2 fr by simp
    next
      case (Suc j)
      with i have j: "j < length rest" by simp
      from g j have
        "Inr (fo_revenue_growth_yoy_percent (outs ! j))
                = calculate_growth_rate (filing_revenue (rest ! j))
                    (if j = 0 then ?pv ''revenue'' else filing_revenue (rest ! (j - 1)))"
        and
        "Inr (fo_net_income_growth_yoy_percent (outs ! j))
                = calculate_growth_rate (filing_net_income (rest ! j))
                    (if j = 0 then ?pv ''net_income_ic''
                     else filing_net_income (rest ! (j - 1)))"
        by blast+
      then show ?thesis
        using Suc fr by (cases j) simp_all
    qed
  qed
  ultimately show ?case by blast
qed

lemma annual_filings_report:
  "f \<in> set (annual_filings data) \<Longrightarrow> fd_report f \<noteq> None"
proof -
  assume "f \<in> set (annual_filings data)"
  then have "f \<in> set (filter is_annual_filing data)"
    by (simp add: annual_filings_def py_sorted_reverse_def)
  then show ?thesis by (simp add: is_annual_filing_def)
qed

lemma filing_ratios_fields:
  "\<exists>r. filing_ratios report = Inr r
       \<and> cr_gross_margin r =
           (if (case current_revenue report of None \<Rightarrow> False | Some b \<Rightarrow> feq b (Finite 0))
              then None
              else ratio_spec (current_gross_profit report) (current_revenue report) 4)
       \<and> cr_operating_margin r =
           (if (case current_revenue report of None \<Rightarrow> False | Some b \<Rightarrow> feq b (Finite 0))
              then None
              else ratio_spec (current_operating_income report) (current_revenue report) 4)
       \<and> cr_net_profit_margin r =
           (if (case current_revenue report of None \<Rightarrow> False | Some b \<Rightarrow> feq b (Finite 0))
              then None
              else ratio_spec (current_net_income_ic report) (current_revenue report) 4)
       \<and> cr_current_ratio r =
           ratio_spec (current_total_current_assets report) (current_total_current_liabilities report) 2
       \<and> cr_debt_to_equity_ratio r =
           ratio_spec (current_total_liabilities report) (current_total_equity report) 2"
  by (auto simp: filing_ratios_def calculated_ratios_block_def margin_ratio_eq balance_ratio_eq
        ratio_spec_def split: option.splits)

lemma loop_body_ratios:
  assumes "loop_body pv f = Inr (out, pv')"
  shows "\<exists>report r. fd_report f = Some report \<and> filing_ratios report = Inr r
           \<and> fo_calculated_ratios out
               = (if calculated_ratios_present r then Some r else None)"
proof (cases "fd_report f")
  case None
  with assms show ?thesis by (simp add: loop_body_def)
next
  case (Some report)
  obtain r where r: "filing_ratios report = Inr r"
    using filing_ratios_total by blast
  obtain g1 where g1: "calculate_growth_rate (current_revenue report) (pv ''revenue'') = Inr g1"
    using growth_total by blast
  obtain g2 where g2:
    "calculate_growth_rate (current_net_income_ic report) (pv ''net_income_ic'') = Inr g2"
    using growth_total by blast
  from assms Some r g1 g2 have "fo_calculated_ratios out
                     = (if calculated_ratios_present r then Some r else None)"
    by (auto simp: loop_body_def Let_def)
  with Some r show ?thesis by blast
qed

lemma filings_loop_bodies:
  assumes "\<forall>f \<in> set fs. fd_report f \<noteq> None"
  shows "\<exists>outs. filings_loop acc pv fs = Inr (acc @ outs) \<and> length outs = length fs
           \<and> (\<forall>i < length fs. \<exists>pv1 pv2. loop_body pv1 (fs ! i) = Inr (outs ! i, pv2))"
  using assms
proof (induction fs arbitrary: acc pv)
  case Nil
  show ?case by simp
next
  case (Cons f rest)
  then obtain r where r: "fd_report f = Some r" by auto
  from loop_body_ok [OF r, of pv] obtain out pv' where out: "loop_body pv f = Inr (out, pv')"
    by blast
  from Cons.prems have "\<forall>f \<in> set rest. fd_report f \<noteq> None" by simp
  from Cons.IH [OF this, of "acc @ [out]" pv'] obtain outs where
    l: "filings_loop (acc @ [out]) pv' rest = Inr ((acc @ [out]) @ outs)"
    and n: "length outs = length rest"
    and b: "\<forall>i < length rest. \<exists>pv1 pv2. loop_body pv1 (rest ! i) = Inr (outs ! i, pv2)"
    by blast
  have "filings_loop acc pv (f # rest) = Inr (acc @ (out # outs))"
    using out l by simp
  moreover have "length (out # outs) = length (f # rest)"
    using n by simp
  moreover have "\<forall>i < length (f # rest).
                   \<exists>pv1 pv2. loop_body pv1 ((f # rest) ! i) = Inr ((out # outs) ! i, pv2)"
  proof (intro allI impI)
    fix i assume i: "i < length (f # rest)"
    show "\<exists>pv1 pv2. loop_body pv1 ((f # rest) ! i) = Inr ((out # outs) ! i, pv2)"
    proof (cases i)
      case 0
      then show ?thesis using out by auto
    next
      case (Suc j)
      with i have "j < length rest" by simp
      with b have "\<exists>pv1 pv2. loop_body pv1 (rest ! j) = Inr (outs ! j, pv2)" by blast
      with Suc show ?thesis by simp
    qed
  qed
  ultimately show ?case by blast
qed

section \<open>The ratios\<close>

text \<open>
  C1, as stated, fails on the code: for a filing whose income statement reports a gross
  profit of 5 and a revenue of 0 the gross margin stays null, where the claim asks
  for plus infinity.
\<close>

theorem ratios_counterexample:
  "current_gross_profit
     \<lparr>rep_bs = None,
          rep_ic = Some [\<lparr>ri_concept = ''us-gaap_Revenues'', ri_unit = ''usd'', ri_label = ''Revenues'',
                 ri_value = VFloat (Finite 0)\<rparr>,
                \<lparr>ri_concept = ''us-gaap_GrossProfit'', ri_unit = ''usd'', ri_label = ''Gross profit'',
                 ri_value = VFloat (Finite 5)\<rparr>],
          rep_cf = None\<rparr> = Some (Finite 5)
   \<and> current_revenue
     \<lparr>rep_bs = None,
          rep_ic = Some [\<lparr>ri_concept = ''us-gaap_Revenues'', ri_unit = ''usd'', ri_label = ''Revenues'',
                 ri_value = VFloat (Finite 0)\<rparr>,
                \<lparr>ri_concept = ''us-gaap_GrossProfit'', ri_unit = ''usd'', ri_label = ''Gross profit'',
                 ri_value = VFloat (Finite 5)\<rparr>],
          rep_cf = None\<rparr> = Some (Finite 0)
   \<and> filing_ratios
     \<lparr>rep_bs = None,
          rep_ic = Some [\<lparr>ri_concept = ''us-gaap_Revenues'', ri_unit = ''usd'', ri_label = ''Revenues'',
                 ri_value = VFloat (Finite 0)\<rparr>,
                \<lparr>ri_concept = ''us-gaap_GrossProfit'', ri_unit = ''usd'', ri_label = ''Gross profit'',
                 ri_value = VFloat (Finite 5)\<rparr>],
          rep_cf = None\<rparr>
       = Inr \<lparr>cr_gross_margin = None, cr_operating_margin = None, cr_net_profit_margin = None,
                 cr_current_ratio = None, cr_debt_to_equity_ratio = None\<rparr>
   \<and> ratio_spec (Some (Finite 5)) (Some (Finite 0)) 4 = Some PInf"
  by (simp add: filing_ratios_def calculated_ratios_block_def margin_ratio_eq balance_ratio_eq
        ratio_spec_def feq_def
        current_revenue_def current_gross_profit_def current_operating_income_def
          current_net_income_ic_def current_total_current_assets_def
          current_total_current_liabilities_def current_total_liabilities_def
          current_total_equity_def income_statement_block_def balance_sheet_block_def
          truthy_items_def find_concept_value_def item_out_def item_value_def Let_def)

text \<open>
  C1, amended: for every filing the financial-statements endpoint processes, the ratio
  block never raises, and with the operands read off that filing's report: current
  ratio and debt-to-equity follow the rule of the claim with 2 decimal places (null if
  an operand is null, plus infinity if the denominator is zero and the numerator is
  non-null, whatever its sign, otherwise the float quotient rounded); each of the three
  margins is null if the revenue is zero and follows the rule of the claim with
  4 decimal places otherwise. The output record carries the ratios when at least one
  of them is finite.
\<close>

theorem ratios_amended:
  assumes "annual_filings (fr_data d) = fs" and "fs \<noteq> []"
  shows "\<exists>outs. get_company_financials_endpoint symbol (Some d)
                  = Inr \<lparr>ro_symbol = symbol, ro_filings = outs\<rparr>
           \<and> length outs = length fs
           \<and> (\<forall>i < length fs. \<exists>report r.
                  fd_report (fs ! i) = Some report
                \<and> filing_ratios report = Inr r
                \<and> fo_calculated_ratios (outs ! i)
                    = (if calculated_ratios_present r then Some r else None)
                \<and> cr_gross_margin r =
                    (if (case current_revenue report of None \<Rightarrow> False | Some b \<Rightarrow> feq b (Finite 0))
                       then None
                       else ratio_spec (current_gross_profit report) (current_revenue report) 4)
                \<and> cr_operating_margin r =
                    (if (case current_revenue report of None \<Rightarrow> False | Some b \<Rightarrow> feq b (Finite 0))
                       then None
                       else ratio_spec (current_operating_income report) (current_revenue report) 4)
                \<and> cr_net_profit_margin r =
                    (if (case current_revenue report of None \<Rightarrow> False | Some b \<Rightarrow> feq b (Finite 0))
                       then None
                       else ratio_spec (current_net_income_ic report) (current_revenue report) 4)
                \<and> cr_current_ratio r =
                    ratio_spec (current_total_current_assets report) (current_total_current_liabilities report) 2
                \<and> cr_debt_to_equity_ratio r =
                    ratio_spec (current_total_liabilities report) (current_total_equity report) 2)"
proof -
  have rep: "\<forall>f \<in> set fs. fd_report f \<noteq> None"
    using assms(1) annual_filings_report by blast
  have data: "fr_data d \<noteq> []"
    using assms by (auto simp: annual_filings_def py_sorted_reverse_def)
  from filings_loop_bodies [OF rep, of "[]" "\<lambda>k. None"] obtain outs where
    l: "filings_loop [] (\<lambda>k. None) fs = Inr outs"
    and n: "length outs = length fs"
    and b: "\<forall>i < length fs. \<exists>pv1 pv2. loop_body pv1 (fs ! i) = Inr (outs ! i, pv2)"
    by auto
  have e: "get_company_financials_endpoint symbol (Some d)
             = Inr \<lparr>ro_symbol = symbol, ro_filings = outs\<rparr>"
    using assms data l by (simp add: get_company_financials_endpoint_def Let_def)
  have "\<forall>i < length fs. \<exists>report r.
                  fd_report (fs ! i) = Some report
                \<and> filing_ratios report = Inr r
                \<and> fo_calculated_ratios (outs ! i)
                    = (if calculated_ratios_present r then Some r else None)
                \<and> cr_gross_margin r =
                    (if (case current_revenue report of None \<Rightarrow> False | Some b \<Rightarrow> feq b (Finite 0))
                       then None
                       else ratio_spec (current_gross_profit report) (current_revenue report) 4)
                \<and> cr_operating_margin r =
                    (if (case current_revenue report of None \<Rightarrow> False | Some b \<Rightarrow> feq b (Finite 0))
                       then None
                       else ratio_spec (current_operating_income report) (current_revenue report) 4)
                \<and> cr_net_profit_margin r =
                    (if (case current_revenue report of None \<Rightarrow> False | Some b \<Rightarrow> feq b (Finite 0))
                       then None
                       else ratio_spec (current_net_income_ic report) (current_revenue report) 4)
                \<and> cr_current_ratio r =
                    ratio_spec (current_total_current_assets report) (current_total_current_liabilities report) 2
                \<and> cr_debt_to_equity_ratio r =
                    ratio_spec (current_total_liabilities report) (current_total_equity report) 2"
  proof (intro allI impI)
    fix i assume "i < length fs"
    with b obtain pv1 pv2 where "loop_body pv1 (fs ! i) = Inr (outs ! i, pv2)"
      by blast
    from loop_body_ratios [OF this] obtain report r where
      r: "fd_report (fs ! i) = Some report" "filing_ratios report = Inr r"
        "fo_calculated_ratios (outs ! i) = (if calculated_ratios_present r then Some r else None)"
      by blast
    from filing_ratios_fields [of report] r(2) have
      "cr_gross_margin r =
           (if (case current_revenue report of None \<Rightarrow> False | Some b \<Rightarrow> feq b (Finite 0))
              then None
              else ratio_spec (current_gross_profit report) (current_revenue report) 4)
       \<and> cr_operating_margin r =
           (if (case current_revenue report of None \<Rightarrow> False | Some b \<Rightarrow> feq b (Finite 0))
              then None
              else ratio_spec (current_operating_income report) (current_revenue report) 4)
       \<and> cr_net_profit_margin r =
           (if (case current_revenue report of None \<Rightarrow> False | Some b \<Rightarrow> feq b (Finite 0))
              then None
              else ratio_spec (current_net_income_ic report) (current_revenue report) 4)
       \<and> cr_current_ratio r =
           ratio_spec (current_total_current_assets report) (current_total_current_liabilities report) 2
       \<and> cr_debt_to_equity_ratio r =
           ratio_spec (current_total_liabilities report) (current_total_equity report) 2"
      by simp
    with r show "\<exists>report r.
                  fd_report (fs ! i) = Some report
                \<and> filing_ratios report = Inr r
                \<and> fo_calculated_ratios (outs ! i)
                    = (if calculated_ratios_present r then Some r else None)
                \<and> cr_gross_margin r =
                    (if (case current_revenue report of None \<Rightarrow> False | Some b \<Rightarrow> feq b (Finite 0))
                       then None
                       else ratio_spec (current_gross_profit report) (current_revenue report) 4)
                \<and> cr_operating_margin r =
                    (if (case current_revenue report of None \<Rightarrow> False | Some b \<Rightarrow> feq b (Finite 0))
                       then None
                       else ratio_spec (current_operating_income report) (current_revenue report) 4)
                \<and> cr_net_profit_margin r =
                    (if (case current_revenue report of None \<Rightarrow> False | Some b \<Rightarrow> feq b (Finite 0))
                       then None
                       else ratio_spec (current_net_income_ic report) (current_revenue report) 4)
                \<and> cr_current_ratio r =
                    ratio_spec (current_total_current_assets report) (current_total_current_liabilities report) 2
                \<and> cr_debt_to_equity_ratio r =
                    ratio_spec (current_total_liabilities report) (current_total_equity report) 2"
      by blast
  qed
  with e n show ?thesis by blast
qed

theorem ratios_amended_witness:
  "(let rA = \<lparr>rep_bs = Some [\<lparr>ri_concept = ''us-gaap_AssetsCurrent'', ri_unit = ''usd'', ri_label = ''Current assets'',
                 ri_value = VFloat (Finite 199)\<rparr>,
                \<lparr>ri_concept = ''us-gaap_LiabilitiesCurrent'', ri_unit = ''usd'', ri_label = ''Current liabilities'',
                 ri_value = VFloat (Finite 200)\<rparr>,
                \<lparr>ri_concept = ''us-gaap_Liabilities'', ri_unit = ''usd'', ri_label = ''Liabilities'',
                 ri_value = VFloat (Finite 1)\<rparr>,
                \<lparr>ri_concept = ''us-gaap_StockholdersEquity'', ri_unit = ''usd'', ri_label = ''Equity'',
                 ri_value = VFloat (Finite 40)\<rparr>],
          rep_ic = Some [\<lparr>ri_concept = ''us-gaap_Revenues'', ri_unit = ''usd'', ri_label = ''Revenues'',
                 ri_value = VFloat (Finite 20000)\<rparr>,
                \<lparr>ri_concept = ''us-gaap_GrossProfit'', ri_unit = ''usd'', ri_label = ''Gross profit'',
                 ri_value = VFloat (Finite 1)\<rparr>],
          rep_cf = None\<rparr>;
        rB = \<lparr>rep_bs = Some [\<lparr>ri_concept = ''us-gaap_AssetsCurrent'', ri_unit = ''usd'', ri_label = ''Current assets'',
                 ri_value = VFloat (Finite (- 100))\<rparr>,
                \<lparr>ri_concept = ''us-gaap_LiabilitiesCurrent'', ri_unit = ''usd'', ri_label = ''Current liabilities'',
                 ri_value = VFloat (Finite 0)\<rparr>],
          rep_ic = Some [\<lparr>ri_concept = ''us-gaap_Revenues'', ri_unit = ''usd'', ri_label = ''Revenues'',
                 ri_value = VFloat (Finite 0)\<rparr>,
                \<lparr>ri_concept = ''us-gaap_GrossProfit'', ri_unit = ''usd'', ri_label = ''Gross profit'',
                 ri_value = VFloat (Finite 5)\<rparr>],
          rep_cf = None\<rparr>;
        fA = \<lparr>fd_accessNumber = ''a4'', fd_symbol = ''ACME'', fd_cik = ''1'', fd_year = 2023,
          fd_quarter = 0, fd_form = ''10-K'', fd_startDate = None,
          fd_endDate = Some ''2023-12-31'', fd_filedDate = None, fd_acceptedDate = None,
          fd_report = Some rA\<rparr>;
        fB = \<lparr>fd_accessNumber = ''a2'', fd_symbol = ''ACME'', fd_cik = ''1'', fd_year = 2022,
          fd_quarter = 0, fd_form = ''10-K'', fd_startDate = None,
          fd_endDate = Some ''2022-12-31'', fd_filedDate = None, fd_acceptedDate = None,
          fd_report = Some rB\<rparr>;
        d = \<lparr>fr_cik = ''1'', fr_data = [fB, fA], fr_symbol = ''ACME''\<rparr>
    in annual_filings (fr_data d) = [fA, fB]
       \<and> (\<exists>outs. get_company_financials_endpoint ''ACME'' (Some d)
                     = Inr \<lparr>ro_symbol = ''ACME'', ro_filings = outs\<rparr>
              \<and> length outs = 2
              \<and> fo_calculated_ratios (outs ! 0)
                  = Some \<lparr>cr_gross_margin = Some (Finite (7378697629483821 / 73786976294838206464)),
                   cr_operating_margin = None, cr_net_profit_margin = None,
                   cr_current_ratio = Some (Finite (4458563631096791 / 4503599627370496)),
                   cr_debt_to_equity_ratio = Some (Finite (1080863910568919 / 36028797018963968))\<rparr>
              \<and> fo_calculated_ratios (outs ! 1) = None)
       \<and> filing_ratios rB
           = Inr \<lparr>cr_gross_margin = None, cr_operating_margin = None, cr_net_profit_margin = None,
                   cr_current_ratio = Some PInf, cr_debt_to_equity_ratio = None\<rparr>)"
proof -
  let ?rA = "\<lparr>rep_bs = Some [\<lparr>ri_concept = ''us-gaap_AssetsCurrent'', ri_unit = ''usd'', ri_label = ''Current assets'',
                 ri_value = VFloat (Finite 199)\<rparr>,
                \<lparr>ri_concept = ''us-gaap_LiabilitiesCurrent'', ri_unit = ''usd'', ri_label = ''Current liabilities'',
                 ri_value = VFloat (Finite 200)\<rparr>,
                \<lparr>ri_concept = ''us-gaap_Liabilities'', ri_unit = ''usd'', ri_label = ''Liabilities'',
                 ri_value = VFloat (Finite 1)\<rparr>,
                \<lparr>ri_concept = ''us-gaap_StockholdersEquity'', ri_unit = ''usd'', ri_label = ''Equity'',
                 ri_value = VFloat (Finite 40)\<rparr>],
          rep_ic = Some [\<lparr>ri_concept = ''us-gaap_Revenues'', ri_unit = ''usd'', ri_label = ''Revenues'',
                 ri_value = VFloat (Finite 20000)\<rparr>,
                \<lparr>ri_concept = ''us-gaap_GrossProfit'', ri_unit = ''usd'', ri_label = ''Gross profit'',
                 ri_value = VFloat (Finite 1)\<rparr>],
          rep_cf = None\<rparr>"
  let ?rB = "\<lparr>rep_bs = Some [\<lparr>ri_concept = ''us-gaap_AssetsCurrent'', ri_unit = ''usd'', ri_label = ''Current assets'',
                 ri_value = VFloat (Finite (- 100))\<rparr>,
                \<lparr>ri_concept = ''us-gaap_LiabilitiesCurrent'', ri_unit = ''usd'', ri_label = ''Current liabilities'',
                 ri_value = VFloat (Finite 0)\<rparr>],
          rep_ic = Some [\<lparr>ri_concept = ''us-gaap_Revenues'', ri_unit = ''usd'', ri_label = ''Revenues'',
                 ri_value = VFloat (Finite 0)\<rparr>,
                \<lparr>ri_concept = ''us-gaap_GrossProfit'', ri_unit = ''usd'', ri_label = ''Gross profit'',
                 ri_value = VFloat (Finite 5)\<rparr>],
          rep_cf = None\<rparr>"
  let ?fA = "\<lparr>fd_accessNumber = ''a4'', fd_symbol = ''ACME'', fd_cik = ''1'', fd_year = 2023,
          fd_quarter = 0, fd_form = ''10-K'', fd_startDate = None,
          fd_endDate = Some ''2023-12-31'', fd_filedDate = None, fd_acceptedDate = None,
          fd_report = Some ?rA\<rparr>"
  let ?fB = "\<lparr>fd_accessNumber = ''a2'', fd_symbol = ''ACME'', fd_cik = ''1'', fd_year = 2022,
          fd_quarter = 0, fd_form = ''10-K'', fd_startDate = None,
          fd_endDate = Some ''2022-12-31'', fd_filedDate = None, fd_acceptedDate = None,
          fd_report = Some ?rB\<rparr>"
  let ?d = "\<lparr>fr_cik = ''1'', fr_data = [?fB, ?fA], fr_symbol = ''ACME''\<rparr>"
  have ev: "annual_filings (fr_data ?d) = [?fA, ?fB]"
    by (simp add: annual_filings_def is_annual_filing_def py_sorted_reverse_def end_date_key_def)
  have ne: "[?fA, ?fB] \<noteq> []"
    by simp
  have opsA: "current_gross_profit ?rA = Some (Finite 1)"
    "current_operating_income ?rA = None" "current_net_income_ic ?rA = None"
    "current_revenue ?rA = Some (Finite 20000)"
    "current_total_current_assets ?rA = Some (Finite 199)"
    "current_total_current_liabilities ?rA = Some (Finite 200)"
    "current_total_liabilities ?rA = Some (Finite 1)"
    "current_total_equity ?rA = Some (Finite 40)"
    by (simp_all add: current_revenue_def current_gross_profit_def current_operating_income_def
          current_net_income_ic_def current_total_current_assets_def
          current_total_current_liabilities_def current_total_liabilities_def
          current_total_equity_def income_statement_block_def balance_sheet_block_def
          truthy_items_def find_concept_value_def item_out_def item_value_def Let_def)
  have opsB: "current_gross_profit ?rB = Some (Finite 5)"
    "current_operating_income ?rB = None" "current_net_income_ic ?rB = None"
    "current_revenue ?rB = Some (Finite 0)"
    "current_total_current_assets ?rB = Some (Finite (- 100))"
    "current_total_current_liabilities ?rB = Some (Finite 0)"
    "current_total_liabilities ?rB = None"
    "current_total_equity ?rB = None"
    by (simp_all add: current_revenue_def current_gross_profit_def current_operating_income_def
          current_net_income_ic_def current_total_current_assets_def
          current_total_current_liabilities_def current_total_liabilities_def
          current_total_equity_def income_statement_block_def balance_sheet_block_def
          truthy_items_def find_concept_value_def item_out_def item_value_def Let_def)
  have z: "feq (Finite 20000) (Finite 0) = False" "feq (Finite 200) (Finite 0) = False"
    "feq (Finite 40) (Finite 0) = False" "feq (Finite 0) (Finite 0) = True"
    by (simp_all add: feq_def)
  have gq: "fquot (Finite 1) (Finite 20000) = Finite (7378697629483821 / 147573952589676412928)"
    unfolding fquot.simps
    by (rule double_of_cert [where k = "- 15" and m = 7378697629483821 and e = "- 67"])
       (simp_all add: pow2_def)
  have gr_r: "round_half_even ((7378697629483821 / 147573952589676412928) * 10 ^ 4) = 1"
    by (rule round_half_even_unique) simp
  have gr: "py_round (Finite (7378697629483821 / 147573952589676412928)) 4 = double_of (1 / 10000)"
    unfolding py_round.simps round_rat_def gr_r by simp
  have gv: "double_of (1 / 10000) = Finite (7378697629483821 / 73786976294838206464)"
    by (rule double_of_cert [where k = "- 14" and m = 7378697629483821 and e = "- 66"])
       (simp_all add: pow2_def)
  have cq: "fquot (Finite 199) (Finite 200) = Finite (8962163258467287 / 9007199254740992)"
    unfolding fquot.simps
    by (rule double_of_cert [where k = "- 1" and m = 8962163258467287 and e = "- 53"])
       (simp_all add: pow2_def)
  have cr_r: "round_half_even ((8962163258467287 / 9007199254740992) * 10 ^ 2) = 99"
    by (rule round_half_even_unique) simp
  have cr: "py_round (Finite (8962163258467287 / 9007199254740992)) 2 = double_of (99 / 100)"
    unfolding py_round.simps round_rat_def cr_r by simp
  have cv: "double_of (99 / 100) = Finite (4458563631096791 / 4503599627370496)"
    by (rule double_of_cert [where k = "- 1" and m = 8917127262193582 and e = "- 53"])
       (simp_all add: pow2_def)
  have dq: "fquot (Finite 1) (Finite 40) = Finite (3602879701896397 / 144115188075855872)"
    unfolding fquot.simps
    by (rule double_of_cert [where k = "- 6" and m = 7205759403792794 and e = "- 58"])
       (simp_all add: pow2_def)
  have dr_r: "round_half_even ((3602879701896397 / 144115188075855872) * 10 ^ 2) = 3"
    by (rule round_half_even_unique) simp
  have dr: "py_round (Finite (3602879701896397 / 144115188075855872)) 2 = double_of (3 / 100)"
    unfolding py_round.simps round_rat_def dr_r by simp
  have dv: "double_of (3 / 100) = Finite (1080863910568919 / 36028797018963968)"
    by (rule double_of_cert [where k = "- 6" and m = 8646911284551352 and e = "- 58"])
       (simp_all add: pow2_def)
  from ratios_amended [OF ev ne, of "''ACME''"] obtain outs where
    e: "get_company_financials_endpoint ''ACME'' (Some ?d)
          = Inr \<lparr>ro_symbol = ''ACME'', ro_filings = outs\<rparr>"
    and n: "length outs = length [?fA, ?fB]"
    and all: "\<forall>i < length [?fA, ?fB]. \<exists>report r.
                  fd_report ([?fA, ?fB] ! i) = Some report
                \<and> filing_ratios report = Inr r
                \<and> fo_calculated_ratios (outs ! i)
                    = (if calculated_ratios_present r then Some r else None)
                \<and> cr_gross_margin r =
                    (if (case current_revenue report of None \<Rightarrow> False | Some b \<Rightarrow> feq b (Finite 0))
                       then None
                       else ratio_spec (current_gross_profit report) (current_revenue report) 4)
                \<and> cr_operating_margin r =
                    (if (case current_revenue report of None \<Rightarrow> False | Some b \<Rightarrow> feq b (Finite 0))
                       then None
                       else ratio_spec (current_operating_income report) (current_revenue report) 4)
                \<and> cr_net_profit_margin r =
                    (if (case current_revenue report of None \<Rightarrow> False | Some b \<Rightarrow> feq b (Finite 0))
                       then None
                       else ratio_spec (current_net_income_ic report) (current_revenue report) 4)
                \<and> cr_current_ratio r =
                    ratio_spec (current_total_current_assets report) (current_total_current_liabilities report) 2
                \<and> cr_debt_to_equity_ratio r =
                    ratio_spec (current_total_liabilities report) (current_total_equity report) 2"
    by blast
  have outA: "fo_calculated_ratios (outs ! 0) = Some \<lparr>cr_gross_margin = Some (Finite (7378697629483821 / 73786976294838206464)),
                   cr_operating_margin = None, cr_net_profit_margin = None,
                   cr_current_ratio = Some (Finite (4458563631096791 / 4503599627370496)),
                   cr_debt_to_equity_ratio = Some (Finite (1080863910568919 / 36028797018963968))\<rparr>"
  proof -
    have al: "0 < length [?fA, ?fB]"
      by simp
    from all [rule_format, OF al] obtain report r where
      a1: "fd_report ([?fA, ?fB] ! 0) = Some report"
      and a2: "filing_ratios report = Inr r"
      and a3: "fo_calculated_ratios (outs ! 0)
               = (if calculated_ratios_present r then Some r else None)"
      and af0: "cr_gross_margin r =
        (if (case current_revenue report of None \<Rightarrow> False | Some b \<Rightarrow> feq b (Finite 0))
           then None
           else ratio_spec (current_gross_profit report) (current_revenue report) 4)"
      and af1: "cr_operating_margin r =
        (if (case current_revenue report of None \<Rightarrow> False | Some b \<Rightarrow> feq b (Finite 0))
           then None
           else ratio_spec (current_operating_income report) (current_revenue report) 4)"
      and af2: "cr_net_profit_margin r =
        (if (case current_revenue report of None \<Rightarrow> False | Some b \<Rightarrow> feq b (Finite 0))
           then None
           else ratio_spec (current_net_income_ic report) (current_revenue report) 4)"
      and af3: "cr_current_ratio r =
        ratio_spec (current_total_current_assets report) (current_total_current_liabilities report) 2"
      and af4: "cr_debt_to_equity_ratio r =
        ratio_spec (current_total_liabilities report) (current_total_equity report) 2"
      by blast
    from a1 have ae: "report = ?rA"
      by simp
    have ag0: "cr_gross_margin r = Some (Finite (7378697629483821 / 73786976294838206464))"
      unfolding af0 ae opsA
      by (simp only: ratio_spec_def option.case prod.case if_True if_False z gq gr gv)
    have ag1: "cr_operating_margin r = None"
      unfolding af1 ae opsA
      by (simp only: ratio_spec_def option.case prod.case if_True if_False z)
    have ag2: "cr_net_profit_margin r = None"
      unfolding af2 ae opsA
      by (simp only: ratio_spec_def option.case prod.case if_True if_False z)
    have ag3: "cr_current_ratio r = Some (Finite (4458563631096791 / 4503599627370496))"
      unfolding af3 ae opsA
      by (simp only: ratio_spec_def option.case prod.case if_True if_False z cq cr cv)
    have ag4: "cr_debt_to_equity_ratio r = Some (Finite (1080863910568919 / 36028797018963968))"
      unfolding af4 ae opsA
      by (simp only: ratio_spec_def option.case prod.case if_True if_False z dq dr dv)
    have ar: "r = \<lparr>cr_gross_margin = Some (Finite (7378697629483821 / 73786976294838206464)),
                     cr_operating_margin = None, cr_net_profit_margin = None,
                     cr_current_ratio = Some (Finite (4458563631096791 / 4503599627370496)),
                     cr_debt_to_equity_ratio = Some (Finite (1080863910568919 / 36028797018963968))\<rparr>"
      using ag0 ag1 ag2 ag3 ag4 by (cases r) simp
    have ap: "calculated_ratios_present \<lparr>cr_gross_margin = Some (Finite (7378697629483821 / 73786976294838206464)),
                     cr_operating_margin = None, cr_net_profit_margin = None,
                     cr_current_ratio = Some (Finite (4458563631096791 / 4503599627370496)),
                     cr_debt_to_equity_ratio = Some (Finite (1080863910568919 / 36028797018963968))\<rparr> = True"
      by (simp add: calculated_ratios_present_def isinf_def isnan_def)
    show ?thesis
      unfolding a3 ar ap by simp
  qed
  have outB: "fo_calculated_ratios (outs ! 1) = None \<and> filing_ratios ?rB = Inr \<lparr>cr_gross_margin = None, cr_operating_margin = None, cr_net_profit_margin = None,
                   cr_current_ratio = Some PInf, cr_debt_to_equity_ratio = None\<rparr>"
  proof -
    have bl: "1 < length [?fA, ?fB]"
      by simp
    from all [rule_format, OF bl] obtain report r where
      b1: "fd_report ([?fA, ?fB] ! 1) = Some report"
      and b2: "filing_ratios report = Inr r"
      and b3: "fo_calculated_ratios (outs ! 1)
               = (if calculated_ratios_present r then Some r else None)"
      and bf0: "cr_gross_margin r =
        (if (case current_revenue report of None \<Rightarrow> False | Some b \<Rightarrow> feq b (Finite 0))
           then None
           else ratio_spec (current_gross_profit report) (current_revenue report) 4)"
      and bf1: "cr_operating_margin r =
        (if (case current_revenue report of None \<Rightarrow> False | Some b \<Rightarrow> feq b (Finite 0))
           then None
           else ratio_spec (current_operating_income report) (current_revenue report) 4)"
      and bf2: "cr_net_profit_margin r =
        (if (case current_revenue report of None \<Rightarrow> False | Some b \<Rightarrow> feq b (Finite 0))
           then None
           else ratio_spec (current_net_income_ic report) (current_revenue report) 4)"
      and bf3: "cr_current_ratio r =
        ratio_spec (current_total_current_assets report) (current_total_current_liabilities report) 2"
      and bf4: "cr_debt_to_equity_ratio r =
        ratio_spec (current_total_liabilities report) (current_total_equity report) 2"
      by blast
    from b1 have be: "report = ?rB"
      by simp
    have bg0: "cr_gross_margin r = None"
      unfolding bf0 be opsB
      by (simp only: ratio_spec_def option.case prod.case if_True if_False z)
    have bg1: "cr_operating_margin r = None"
      unfolding bf1 be opsB
      by (simp only: ratio_spec_def option.case prod.case if_True if_False z)
    have bg2: "cr_net_profit_margin r = None"
      unfolding bf2 be opsB
      by (simp only: ratio_spec_def option.case prod.case if_True if_False z)
    have bg3: "cr_current_ratio r = Some PInf"
      unfolding bf3 be opsB
      by (simp only: ratio_spec_def option.case prod.case if_True if_False z)
    have bg4: "cr_debt_to_equity_ratio r = None"
      unfolding bf4 be opsB
      by (simp only: ratio_spec_def option.case prod.case if_True if_False z)
    have br: "r = \<lparr>cr_gross_margin = None, cr_operating_margin = None, cr_net_profit_margin = None,
                     cr_current_ratio = Some PInf, cr_debt_to_equity_ratio = None\<rparr>"
      using bg0 bg1 bg2 bg3 bg4 by (cases r) simp
    have bp: "calculated_ratios_present \<lparr>cr_gross_margin = None, cr_operating_margin = None, cr_net_profit_margin = None,
                     cr_current_ratio = Some PInf, cr_debt_to_equity_ratio = None\<rparr> = False"
      by (simp add: calculated_ratios_present_def isinf_def isnan_def)
    have "fo_calculated_ratios (outs ! 1) = None"
      unfolding b3 br bp by simp
    moreover have "filing_ratios ?rB = Inr \<lparr>cr_gross_margin = None, cr_operating_margin = None, cr_net_profit_margin = None,
                   cr_current_ratio = Some PInf, cr_debt_to_equity_ratio = None\<rparr>"
      using b2 unfolding be br .
    ultimately show ?thesis ..
  qed
  from n have n2: "length outs = 2"
    by simp
  have x: "\<exists>outs. get_company_financials_endpoint ''ACME'' (Some ?d)
                     = Inr \<lparr>ro_symbol = ''ACME'', ro_filings = outs\<rparr>
              \<and> length outs = 2
              \<and> fo_calculated_ratios (outs ! 0)
                  = Some \<lparr>cr_gross_margin = Some (Finite (7378697629483821 / 73786976294838206464)),
                   cr_operating_margin = None, cr_net_profit_margin = None,
                   cr_current_ratio = Some (Finite (4458563631096791 / 4503599627370496)),
                   cr_debt_to_equity_ratio = Some (Finite (1080863910568919 / 36028797018963968))\<rparr>
              \<and> fo_calculated_ratios (outs ! 1) = None"
    by (intro exI [of _ outs] conjI e n2 outA outB [THEN conjunct1])
  show ?thesis
    unfolding Let_def by (intro conjI ev x outB [THEN conjunct2])
qed

section \<open>The growth rates across filings\<close>

text \<open>
  C7: when the selection is not empty the handler returns one output record per
  selected filing, in the same order; the growth fields of the first (newest) record
  are null; those of every later record are the growth function applied to that
  filing's own revenue and net income as current and to those of the filing just
  before it as previous. One iteration on a filing with a report never raises and
  leaves the carried dictionary holding that filing's revenue and net income.
\<close>

theorem growth_threading:
  assumes "annual_filings (fr_data d) = fs" and "fs \<noteq> []"
  shows "\<exists>outs. get_company_financials_endpoint symbol (Some d)
                  = Inr \<lparr>ro_symbol = symbol, ro_filings = outs\<rparr>
           \<and> length outs = length fs
           \<and> fo_revenue_growth_yoy_percent (outs ! 0) = None
           \<and> fo_net_income_growth_yoy_percent (outs ! 0) = None
           \<and> (\<forall>i. 0 < i \<and> i < length fs \<longrightarrow>
                Inr (fo_revenue_growth_yoy_percent (outs ! i))
                  = calculate_growth_rate (filing_revenue (fs ! i))
                      (filing_revenue (fs ! (i - 1)))
              \<and> Inr (fo_net_income_growth_yoy_percent (outs ! i))
                  = calculate_growth_rate (filing_net_income (fs ! i))
                      (filing_net_income (fs ! (i - 1))))
         \<and> (fd_report f \<noteq> None \<longrightarrow>
              (\<exists>out. loop_body pv f
                      = Inr (out, pv(''revenue'' := filing_revenue f,
                                     ''net_income_ic'' := filing_net_income f))))"
proof -
  have rep: "\<forall>f \<in> set fs. fd_report f \<noteq> None"
    using assms(1) annual_filings_report by blast
  have data: "fr_data d \<noteq> []"
    using assms by (auto simp: annual_filings_def py_sorted_reverse_def)
  from filings_loop_gen [OF rep, of "[]" "\<lambda>k. None"] obtain outs where
    l: "filings_loop [] (\<lambda>k. None) fs = Inr outs"
    and n: "length outs = length fs"
    and g: "\<forall>i < length fs.
                Inr (fo_revenue_growth_yoy_percent (outs ! i))
                  = calculate_growth_rate (filing_revenue (fs ! i))
                      (if i = 0 then None else filing_revenue (fs ! (i - 1)))
              \<and> Inr (fo_net_income_growth_yoy_percent (outs ! i))
                  = calculate_growth_rate (filing_net_income (fs ! i))
                      (if i = 0 then None else filing_net_income (fs ! (i - 1)))"
    by auto
  have e: "get_company_financials_endpoint symbol (Some d)
             = Inr \<lparr>ro_symbol = symbol, ro_filings = outs\<rparr>"
    using assms data l by (simp add: get_company_financials_endpoint_def Let_def)
  from assms(2) have "0 < length fs" by simp
  with g have z: "fo_revenue_growth_yoy_percent (outs ! 0) = None"
    "fo_net_income_growth_yoy_percent (outs ! 0) = None"
    by (auto simp: growth_None_prev)
  have "\<forall>i. 0 < i \<and> i < length fs \<longrightarrow>
                Inr (fo_revenue_growth_yoy_percent (outs ! i))
                  = calculate_growth_rate (filing_revenue (fs ! i))
                      (filing_revenue (fs ! (i - 1)))
              \<and> Inr (fo_net_income_growth_yoy_percent (outs ! i))
                  = calculate_growth_rate (filing_net_income (fs ! i))
                      (filing_net_income (fs ! (i - 1)))"
    using g by auto
  moreover have "fd_report f \<noteq> None \<longrightarrow>
              (\<exists>out. loop_body pv f
                      = Inr (out, pv(''revenue'' := filing_revenue f,
                                     ''net_income_ic'' := filing_net_income f)))"
  proof
    assume "fd_report f \<noteq> None"
    then obtain r where r: "fd_report f = Some r" by auto
    from loop_body_ok [OF r, of pv] show
      "\<exists>out. loop_body pv f
              = Inr (out, pv(''revenue'' := filing_revenue f,
                             ''net_income_ic'' := filing_net_income f))"
      using r by (auto simp: filing_revenue_def filing_net_income_def)
  qed
  ultimately show ?thesis using e n z by blast
qed

theorem growth_threading_witness:
  "(let f22 = \<lparr>fd_accessNumber = ''a2'', fd_symbol = ''ACME'', fd_cik = ''1'', fd_year = 2022,
             fd_quarter = 0, fd_form = ''10-K'', fd_startDate = None, fd_endDate = Some ''2022-12-31'',
             fd_filedDate = None, fd_acceptedDate = None,
             fd_report = Some \<lparr>rep_bs = None,
          rep_ic = Some [\<lparr>ri_concept = ''us-gaap_Revenues'', ri_unit = ''usd'',
                          ri_label = ''Revenues'', ri_value = VFloat (Finite 100)\<rparr>,
                         \<lparr>ri_concept = ''us-gaap_NetIncomeLoss'', ri_unit = ''usd'',
                          ri_label = ''Net income'', ri_value = VFloat (Finite 10)\<rparr>],
          rep_cf = None\<rparr>\<rparr>;
        f23 = \<lparr>fd_accessNumber = ''a4'', fd_symbol = ''ACME'', fd_cik = ''1'', fd_year = 2023,
             fd_quarter = 0, fd_form = ''10-K'', fd_startDate = None, fd_endDate = Some ''2023-12-31'',
             fd_filedDate = None, fd_acceptedDate = None,
             fd_report = Some \<lparr>rep_bs = None,
          rep_ic = Some [\<lparr>ri_concept = ''us-gaap_Revenues'', ri_unit = ''usd'',
                          ri_label = ''Revenues'', ri_value = VFloat (Finite 110)\<rparr>,
                         \<lparr>ri_concept = ''us-gaap_NetIncomeLoss'', ri_unit = ''usd'',
                          ri_label = ''Net income'', ri_value = VFloat (Finite 0)\<rparr>],
          rep_cf = None\<rparr>\<rparr>;
        d = \<lparr>fr_cik = ''1'', fr_data = [f22, f23], fr_symbol = ''ACME''\<rparr>
    in annual_filings (fr_data d) = [f23, f22]
       \<and> (\<exists>outs. get_company_financials_endpoint ''ACME'' (Some d)
                     = Inr \<lparr>ro_symbol = ''ACME'', ro_filings = outs\<rparr>
              \<and> length outs = 2
              \<and> fo_revenue_growth_yoy_percent (outs ! 0) = None
              \<and> fo_net_income_growth_yoy_percent (outs ! 0) = None
              \<and> fo_revenue_growth_yoy_percent (outs ! 1) = Some (Finite (- (2558607538299863 / 281474976710656)))
              \<and> fo_net_income_growth_yoy_percent (outs ! 1) = Some PInf)
       \<and> (\<exists>out. loop_body (\<lambda>k. None) f23
                    = Inr (out, (\<lambda>k. None)(''revenue'' := Some (Finite 110),
                                           ''net_income_ic'' := Some (Finite 0)))))"
proof -
  let ?f22 = "\<lparr>fd_accessNumber = ''a2'', fd_symbol = ''ACME'', fd_cik = ''1'', fd_year = 2022,
             fd_quarter = 0, fd_form = ''10-K'', fd_startDate = None, fd_endDate = Some ''2022-12-31'',
             fd_filedDate = None, fd_acceptedDate = None,
             fd_report = Some \<lparr>rep_bs = None,
          rep_ic = Some [\<lparr>ri_concept = ''us-gaap_Revenues'', ri_unit = ''usd'',
                          ri_label = ''Revenues'', ri_value = VFloat (Finite 100)\<rparr>,
                         \<lparr>ri_concept = ''us-gaap_NetIncomeLoss'', ri_unit = ''usd'',
                          ri_label = ''Net income'', ri_value = VFloat (Finite 10)\<rparr>],
          rep_cf = None\<rparr>\<rparr>"
  let ?f23 = "\<lparr>fd_accessNumber = ''a4'', fd_symbol = ''ACME'', fd_cik = ''1'', fd_year = 2023,
             fd_quarter = 0, fd_form = ''10-K'', fd_startDate = None, fd_endDate = Some ''2023-12-31'',
             fd_filedDate = None, fd_acceptedDate = None,
             fd_report = Some \<lparr>rep_bs = None,
          rep_ic = Some [\<lparr>ri_concept = ''us-gaap_Revenues'', ri_unit = ''usd'',
                          ri_label = ''Revenues'', ri_value = VFloat (Finite 110)\<rparr>,
                         \<lparr>ri_concept = ''us-gaap_NetIncomeLoss'', ri_unit = ''usd'',
                          ri_label = ''Net income'', ri_value = VFloat (Finite 0)\<rparr>],
          rep_cf = None\<rparr>\<rparr>"
  let ?d = "\<lparr>fr_cik = ''1'', fr_data = [?f22, ?f23], fr_symbol = ''ACME''\<rparr>"
  have ev: "annual_filings (fr_data ?d) = [?f23, ?f22]"
    by (simp add: annual_filings_def is_annual_filing_def py_sorted_reverse_def end_date_key_def)
  have ne: "[?f23, ?f22] \<noteq> []"
    by simp
  have r22: "filing_revenue ?f22 = Some (Finite 100)" "filing_net_income ?f22 = Some (Finite 10)"
    and r23: "filing_revenue ?f23 = Some (Finite 110)" "filing_net_income ?f23 = Some (Finite 0)"
    by (simp_all add: filing_revenue_def filing_net_income_def current_revenue_def
          current_net_income_ic_def income_statement_block_def truthy_items_def
          find_concept_value_def item_out_def item_value_def Let_def)
  have s1: "fsub (Finite 100) (Finite 110) = Finite (- 10)"
    unfolding fsub.simps
    by (rule double_of_cert [where k = "3" and m = 5629499534213120 and e = "- 49"])
       (simp_all add: pow2_def)
  have s2: "fquot (Finite (- 10)) (Finite 110) = Finite (- (3275345183542179 / 36028797018963968))"
    unfolding fquot.simps
    by (rule double_of_cert [where k = "- 4" and m = 6550690367084358 and e = "- 56"])
       (simp_all add: pow2_def)
  have s3: "fmul (Finite (- (3275345183542179 / 36028797018963968))) (Finite 100) = Finite (- (5117726849284655 / 562949953421312))"
    unfolding fmul.simps
    by (rule double_of_cert [where k = "3" and m = 5117726849284655 and e = "- 49"])
       (simp_all add: pow2_def)
  have s4_r: "round_half_even ((- (5117726849284655 / 562949953421312)) * 10 ^ 2) = - 909"
    by (rule round_half_even_unique) simp
  have s4: "py_round (Finite (- (5117726849284655 / 562949953421312))) 2 = double_of (- (909 / 100))"
    unfolding py_round.simps round_rat_def s4_r by simp
  have sv: "double_of (- (909 / 100)) = Finite (- (2558607538299863 / 281474976710656))"
    by (rule double_of_cert [where k = "3" and m = 5117215076599726 and e = "- 49"])
       (simp_all add: pow2_def)
  have sn: "\<not> feq (Finite 110) (Finite 0)"
    by (simp add: feq_def)
  have g1: "calculate_growth_rate (Some (Finite 100)) (Some (Finite 110))
              = Inr (Some (Finite (- (2558607538299863 / 281474976710656))))"
    unfolding growth_nonzero [OF sn] s1 s2 s3 s4 sv ..
  have g2: "calculate_growth_rate (Some (Finite 10)) (Some (Finite 0)) = Inr (Some PInf)"
    by (simp add: calculate_growth_rate_def feq_def fgt_def)
  note thr = growth_threading [OF ev ne, of "''ACME''" ?f23 "\<lambda>k. None"]
  from thr obtain outs where
    e: "get_company_financials_endpoint ''ACME'' (Some ?d)
          = Inr \<lparr>ro_symbol = ''ACME'', ro_filings = outs\<rparr>"
    and n: "length outs = length [?f23, ?f22]"
    and z: "fo_revenue_growth_yoy_percent (outs ! 0) = None"
      "fo_net_income_growth_yoy_percent (outs ! 0) = None"
    and g: "\<forall>i. 0 < i \<and> i < length [?f23, ?f22] \<longrightarrow>
                Inr (fo_revenue_growth_yoy_percent (outs ! i))
                  = calculate_growth_rate (filing_revenue ([?f23, ?f22] ! i))
                      (filing_revenue ([?f23, ?f22] ! (i - 1)))
              \<and> Inr (fo_net_income_growth_yoy_percent (outs ! i))
                  = calculate_growth_rate (filing_net_income ([?f23, ?f22] ! i))
                      (filing_net_income ([?f23, ?f22] ! (i - 1)))"
    and b: "fd_report ?f23 \<noteq> None \<longrightarrow>
              (\<exists>out. loop_body (\<lambda>k. None) ?f23
                      = Inr (out, (\<lambda>k. None)(''revenue'' := filing_revenue ?f23,
                                             ''net_income_ic'' := filing_net_income ?f23)))"
    by blast
  have "fd_report ?f23 \<noteq> None"
    by simp
  with b have "\<exists>out. loop_body (\<lambda>k. None) ?f23
              = Inr (out, (\<lambda>k. None)(''revenue'' := filing_revenue ?f23,
                                     ''net_income_ic'' := filing_net_income ?f23))"
    by (rule mp)
  then have c: "\<exists>out. loop_body (\<lambda>k. None) ?f23
              = Inr (out, (\<lambda>k. None)(''revenue'' := Some (Finite 110),
                                     ''net_income_ic'' := Some (Finite 0)))"
    by (simp only: r23)
  from g have "Inr (fo_revenue_growth_yoy_percent (outs ! 1))
                  = calculate_growth_rate (filing_revenue ([?f23, ?f22] ! 1))
                      (filing_revenue ([?f23, ?f22] ! (1 - 1)))
              \<and> Inr (fo_net_income_growth_yoy_percent (outs ! 1))
                  = calculate_growth_rate (filing_net_income ([?f23, ?f22] ! 1))
                      (filing_net_income ([?f23, ?f22] ! (1 - 1)))"
    by simp
  then have o1: "fo_revenue_growth_yoy_percent (outs ! 1) = Some (Finite (- (2558607538299863 / 281474976710656)))"
    and o2: "fo_net_income_growth_yoy_percent (outs ! 1) = Some PInf"
    using r22 r23 g1 g2 by simp_all
  from n have n2: "length outs = 2" by simp
  from e n2 z o1 o2 have x: "\<exists>outs. get_company_financials_endpoint ''ACME'' (Some ?d)
                     = Inr \<lparr>ro_symbol = ''ACME'', ro_filings = outs\<rparr>
              \<and> length outs = 2
              \<and> fo_revenue_growth_yoy_percent (outs ! 0) = None
              \<and> fo_net_income_growth_yoy_percent (outs ! 0) = None
              \<and> fo_revenue_growth_yoy_percent (outs ! 1) = Some (Finite (- (2558607538299863 / 281474976710656)))
              \<and> fo_net_income_growth_yoy_percent (outs ! 1) = Some PInf"
    by (intro exI [of _ outs] conjI)
  show ?thesis
    unfolding Let_def by (intro conjI ev x c)
qed

section \<open>The cache\<close>

lemma cached_service_live:
  assumes "live_entry st key now_check"
  shows "\<exists>e. finnhub_cache st key = Some e
           \<and> cached_service key url fetch now_check now_store st = (Inr (Some (ce_data e)), st)"
  using assms
  by (auto simp: live_entry_def cached_service_def timedelta_seconds_def
        CACHE_EXPIRATION_SECONDS_def split: option.splits)

lemma cached_service_stale:
  assumes "\<not> live_entry st key now_check"
  shows "cached_service key url fetch now_check now_store st
           = fetch_fresh key url fetch now_store st"
  using assms
  by (auto simp: live_entry_def cached_service_def timedelta_seconds_def
        CACHE_EXPIRATION_SECONDS_def split: option.splits)

lemma fetch_fresh_requests:
  "requests (snd (fetch_fresh key url fetch now_store st)) = requests st @ [url]"
  by (simp add: fetch_fresh_def Let_def split: sum.splits py_error.splits)

lemma fetch_fresh_success:
  "fetch url = Inr m \<Longrightarrow>
     fetch_fresh key url fetch now_store st
       = (Inr (Some m),
          st\<lparr>requests := requests st @ [url],
             finnhub_cache := (finnhub_cache st)(key \<mapsto> \<lparr>ce_data = m, ce_timestamp = now_store\<rparr>)\<rparr>)"
  by (simp add: fetch_fresh_def Let_def)

lemma fetch_fresh_failure:
  "fetch url = Inl e \<Longrightarrow>
     finnhub_cache (snd (fetch_fresh key url fetch now_store st)) = finnhub_cache st"
  by (simp add: fetch_fresh_def Let_def split: py_error.splits)

lemma fetch_fresh_invalid_symbol:
  "fetch url = Inl (HTTPStatusError 400 body) \<Longrightarrow> contains ''Invalid symbol'' body \<Longrightarrow>
     fst (fetch_fresh key url fetch now_store st) = Inr None"
  by (simp add: fetch_fresh_def Let_def)

lemma cached_service_contract:
  "(live_entry st key now_check \<longrightarrow>
      (\<exists>e. finnhub_cache st key = Some e
         \<and> cached_service key url fetch now_check now_store st = (Inr (Some (ce_data e)), st)))
   \<and> (\<not> live_entry st key now_check \<longrightarrow>
        requests (snd (cached_service key url fetch now_check now_store st)) = requests st @ [url]
        \<and> (\<forall>m. fetch url = Inr m \<longrightarrow>
              cached_service key url fetch now_check now_store st
                = (Inr (Some m),
                   st\<lparr>requests := requests st @ [url],
                      finnhub_cache :=
                        (finnhub_cache st)(key \<mapsto> \<lparr>ce_data = m, ce_timestamp = now_store\<rparr>)\<rparr>))
        \<and> (\<forall>e. fetch url = Inl e \<longrightarrow>
              finnhub_cache (snd (cached_service key url fetch now_check now_store st))
                = finnhub_cache st))"
  using cached_service_live [of st key now_check url fetch now_store]
  by (simp add: cached_service_stale fetch_fresh_requests fetch_fresh_success
        fetch_fresh_failure)

text \<open>
  C8: for each of the three service functions, with its own cache key: a live entry
  (age below 300 seconds) is returned and nothing else changes, no request is sent;
  otherwise exactly one request is sent, a successful result is returned and stored
  under the key with the time of storing, and after a failed fetch the cache is what
  it was.
\<close>

theorem cache_get_or_fetch:
  assumes "(key, service)
             = (get_cache_key ''company_profile'' symbol [], get_company_profile symbol api_key)
         \<or> (key, service)
             = (get_cache_key ''basic_financials'' symbol [(''metric'', aux)],
                get_basic_financials symbol api_key aux)
         \<or> (key, service)
             = (get_cache_key ''financials_reported'' symbol [(''type'', aux)],
                get_financials_reported symbol api_key aux)"
  shows "\<exists>url.
     (live_entry st key now_check \<longrightarrow>
        (\<exists>e. finnhub_cache st key = Some e
           \<and> service fetch now_check now_store st = (Inr (Some (ce_data e)), st)))
     \<and> (\<not> live_entry st key now_check \<longrightarrow>
          requests (snd (service fetch now_check now_store st)) = requests st @ [url]
          \<and> (\<forall>m. fetch url = Inr m \<longrightarrow>
                service fetch now_check now_store st
                  = (Inr (Some m),
                     st\<lparr>requests := requests st @ [url],
                        finnhub_cache :=
                          (finnhub_cache st)(key \<mapsto> \<lparr>ce_data = m, ce_timestamp = now_store\<rparr>)\<rparr>))
          \<and> (\<forall>e. fetch url = Inl e \<longrightarrow>
                finnhub_cache (snd (service fetch now_check now_store st)) = finnhub_cache st))"
  using assms
proof (elim disjE)
  assume "(key, service)
             = (get_cache_key ''company_profile'' symbol [], get_company_profile symbol api_key)"
  then have "service = cached_service key
       (''https://finnhub.io/api/v1/stock/profile2?symbol='' @ symbol @ ''&token='' @ api_key)"
    by (simp add: get_company_profile_def)
  then show ?thesis
    using cached_service_contract by blast
next
  assume "(key, service)
             = (get_cache_key ''basic_financials'' symbol [(''metric'', aux)],
                get_basic_financials symbol api_key aux)"
  then have "service = cached_service key
       (''https://finnhub.io/api/v1/stock/metric?symbol='' @ symbol @ ''&metric='' @ aux
        @ ''&token='' @ api_key)"
    by (simp add: get_basic_financials_def)
  then show ?thesis
    using cached_service_contract by blast
next
  assume "(key, service)
             = (get_cache_key ''financials_reported'' symbol [(''type'', aux)],
                get_financials_reported symbol api_key aux)"
  then have "service = cached_service key
       (''https://finnhub.io/api/v1/stock/financials-reported?symbol='' @ symbol @ ''&type=''
        @ aux @ ''&token='' @ api_key)"
    by (simp add: get_financials_reported_def)
  then show ?thesis
    using cached_service_contract by blast
qed

theorem cache_get_or_fetch_witness:
  "(let key = get_cache_key ''company_profile'' ''AAPL'' [];
        empty = \<lparr>finnhub_cache = (Map.empty :: string \<rightharpoonup> nat cache_entry), requests = []\<rparr>;
        warm = \<lparr>finnhub_cache = [key \<mapsto> \<lparr>ce_data = (7::nat), ce_timestamp = 0\<rparr>],
                requests = []\<rparr>
    in key = ''company_profile_AAPL''
       \<and> get_company_profile ''AAPL'' ''k'' (\<lambda>url. Inr 9) 299999999 299999999 warm
           = (Inr (Some 7), warm)
       \<and> finnhub_cache
           (snd (get_company_profile ''AAPL'' ''k'' (\<lambda>url. Inr 9) 300000000 300000001 warm)) key
           = Some \<lparr>ce_data = 9, ce_timestamp = 300000001\<rparr>
       \<and> length (requests
           (snd (get_company_profile ''AAPL'' ''k'' (\<lambda>url. Inr 9) 300000000 300000001 warm))) = 1
       \<and> finnhub_cache
           (snd (get_company_profile ''AAPL'' ''k'' (\<lambda>url. Inl RequestError) 5 6 empty))
           = Map.empty)"
proof -
  let ?key = "get_cache_key ''company_profile'' ''AAPL'' []"
  let ?empty = "\<lparr>finnhub_cache = (Map.empty :: string \<rightharpoonup> nat cache_entry), requests = []\<rparr>"
  let ?warm = "\<lparr>finnhub_cache = [?key \<mapsto> \<lparr>ce_data = (7::nat), ce_timestamp = 0\<rparr>],
                requests = []\<rparr>"
  let ?svc = "get_company_profile ''AAPL'' ''k''"
  have k: "?key = ''company_profile_AAPL''"
    by (simp add: get_cache_key_def)
  have live: "live_entry ?warm ?key 299999999" and stale: "\<not> live_entry ?warm ?key 300000000"
    and cold: "\<not> live_entry ?empty ?key 5"
    by (simp_all add: live_entry_def)
  have a: "?svc (\<lambda>url. Inr 9) 299999999 299999999 ?warm = (Inr (Some 7), ?warm)"
    using cache_get_or_fetch [of ?key ?svc "''AAPL''" "''k''" _ ?warm 299999999
        "\<lambda>url. Inr 9" 299999999] live
    by auto
  have b: "finnhub_cache (snd (?svc (\<lambda>url. Inr 9) 300000000 300000001 ?warm)) ?key
             = Some \<lparr>ce_data = 9, ce_timestamp = 300000001\<rparr>
           \<and> length (requests (snd (?svc (\<lambda>url. Inr 9) 300000000 300000001 ?warm))) = 1"
    using cache_get_or_fetch [of ?key ?svc "''AAPL''" "''k''" _ ?warm 300000000
        "\<lambda>url. Inr 9" 300000001] stale
    by auto
  have c: "finnhub_cache (snd (?svc (\<lambda>url. Inl RequestError) 5 6 ?empty)) = Map.empty"
    using cache_get_or_fetch [of ?key ?svc "''AAPL''" "''k''" _ ?empty 5
        "\<lambda>url. Inl RequestError" 6] cold
    by auto
  show ?thesis
    unfolding Let_def using k a b c by blast
qed

section \<open>The key-metrics handler\<close>

lemma kwargs_no_growth_key:
  "map_of (key_metrics_kwargs d m q) ''revenue_growth_ttm_yoy'' = None"
  "map_of (key_metrics_kwargs d m q) ''eps_growth_ttm_yoy'' = None"
  by (simp_all add: key_metrics_kwargs_def)

lemma KeyMetricsOut_init_growth:
  assumes "KeyMetricsOut_init kwargs = Inr out"
  shows "km_revenue_growth_ttm_yoy out = float_field (map_of kwargs ''revenue_growth_ttm_yoy'')"
    and "km_eps_growth_ttm_yoy out = float_field (map_of kwargs ''eps_growth_ttm_yoy'')"
  using assms
  by (auto simp: KeyMetricsOut_init_def Let_def split: option.splits pyval.splits if_splits)

text \<open>
  C9: whenever the key-metrics handler returns a record, its fields
  \<open>revenue_growth_ttm_yoy\<close> and \<open>eps_growth_ttm_yoy\<close> are null: the handler passes the
  percentages under the names \<open>revenue_growth_ttm_yoy_percent\<close> and
  \<open>eps_growth_ttm_yoy_percent\<close>, which are no keys of the output schema.
\<close>

theorem key_metrics_growth_null:
  assumes "get_company_metrics_endpoint symbol finnhub_data = Inr out"
  shows "km_revenue_growth_ttm_yoy out = None \<and> km_eps_growth_ttm_yoy out = None
         \<and> ''revenue_growth_ttm_yoy_percent''
             \<notin> set KeyMetricsOut_float_keys \<union> set KeyMetricsOut_str_keys \<union> {''symbol''}
         \<and> ''eps_growth_ttm_yoy_percent''
             \<notin> set KeyMetricsOut_float_keys \<union> set KeyMetricsOut_str_keys \<union> {''symbol''}"
proof -
  from assms obtain d m q where
    "KeyMetricsOut_init (key_metrics_kwargs d m q) = Inr out"
    by (auto simp: get_company_metrics_endpoint_def Let_def split: if_splits option.splits)
  from KeyMetricsOut_init_growth [OF this]
  have "km_revenue_growth_ttm_yoy out = None" "km_eps_growth_ttm_yoy out = None"
    by (simp_all add: kwargs_no_growth_key)
  then show ?thesis
    by (simp add: KeyMetricsOut_float_keys_def KeyMetricsOut_str_keys_def)
qed

theorem key_metrics_growth_null_witness:
  "\<exists>out. get_company_metrics_endpoint ''AAPL''
            (Some \<lparr>bf_metric = Some \<lparr>md_peTTM = Some (Finite 20), md_psTTM = None, md_pb = None, md_epsTTM = None,
            md_roeTTM = None, md_roaTTM = None, md_netProfitMarginTTM = Some (Finite (1 / 4)),
            md_grossMarginTTM = None, md_operatingMarginTTM = None,
            md_currentRatioAnnual = Some (Finite (3 / 2)), md_quickRatioAnnual = None,
            md_totalDebt_totalEquityAnnual = None,
            md_revenueGrowthTTMYoy = Some (Finite (3 / 25)),
            md_epsGrowthTTMYoy = Some (Finite (1 / 10)), md_dividendPerShareTTM = None,
            md_currentDividendYieldTTM = None, md_beta = None, md_marketCapitalization = None,
            md_fifty_two_week_high = None, md_fifty_two_week_low = None,
            md_cashFlowPerShareTTM = None,
            md_extra = [(''quickRatioQuarterly'', VFloat (Finite 1))]\<rparr>,
          bf_metricType = ''all'', bf_symbol = Some ''AAPL'', bf_series = None\<rparr>) = Inr out
         \<and> km_symbol out = ''AAPL''
         \<and> km_pe_ratio_ttm out = Some (Finite 20)
         \<and> km_revenue_growth_ttm_yoy out = None
         \<and> km_eps_growth_ttm_yoy out = None"
proof -
  let ?d = "\<lparr>bf_metric = Some \<lparr>md_peTTM = Some (Finite 20), md_psTTM = None, md_pb = None, md_epsTTM = None,
            md_roeTTM = None, md_roaTTM = None, md_netProfitMarginTTM = Some (Finite (1 / 4)),
            md_grossMarginTTM = None, md_operatingMarginTTM = None,
            md_currentRatioAnnual = Some (Finite (3 / 2)), md_quickRatioAnnual = None,
            md_totalDebt_totalEquityAnnual = None,
            md_revenueGrowthTTMYoy = Some (Finite (3 / 25)),
            md_epsGrowthTTMYoy = Some (Finite (1 / 10)), md_dividendPerShareTTM = None,
            md_currentDividendYieldTTM = None, md_beta = None, md_marketCapitalization = None,
            md_fifty_two_week_high = None, md_fifty_two_week_low = None,
            md_cashFlowPerShareTTM = None,
            md_extra = [(''quickRatioQuarterly'', VFloat (Finite 1))]\<rparr>,
          bf_metricType = ''all'', bf_symbol = Some ''AAPL'', bf_series = None\<rparr>"
  obtain out where out: "get_company_metrics_endpoint ''AAPL'' (Some ?d) = Inr out"
    by (simp add: get_company_metrics_endpoint_def KeyMetricsOut_init_def key_metrics_kwargs_def
          KeyMetricsOut_float_keys_def KeyMetricsOut_str_keys_def of_float_def of_str_def
          times_100_def assess_valuation_def assess_profitability_def assess_liquidity_def
          fle_def fge_def fgt_def feq_def Let_def)
  from out have f: "km_symbol out = ''AAPL'' \<and> km_pe_ratio_ttm out = Some (Finite 20)"
    by (auto simp: get_company_metrics_endpoint_def KeyMetricsOut_init_def key_metrics_kwargs_def
          of_float_def of_str_def Let_def split: if_splits)
  from key_metrics_growth_null [OF out]
  have "km_revenue_growth_ttm_yoy out = None \<and> km_eps_growth_ttm_yoy out = None"
    by blast
  with out f show ?thesis by blast
qed

section \<open>The company-profile handler\<close>

text \<open>
  C10: on a null service result the company-profile handler raises \<open>AttributeError\<close>,
  where the key-metrics and the financial-statements handlers raise the 404
  \<open>HTTPException\<close>; and the profile service does return null when the upstream answers
  400 with "Invalid symbol".
\<close>

theorem profile_null_unhandled:
  "get_company_profile_endpoint symbol None = Inl (AttributeError ''ticker'')
   \<and> (\<exists>detail. get_company_metrics_endpoint symbol None = Inl (HTTPException 404 detail))
   \<and> (\<exists>detail. get_company_financials_endpoint symbol None = Inl (HTTPException 404 detail))
   \<and> (\<not> live_entry st (get_cache_key ''company_profile'' symbol []) now_check
        \<and> fetch (''https://finnhub.io/api/v1/stock/profile2?symbol='' @ symbol @ ''&token=''
                  @ api_key) = Inl (HTTPStatusError 400 body)
        \<and> contains ''Invalid symbol'' body \<longrightarrow>
        fst (get_company_profile symbol api_key fetch now_check now_store st) = Inr None)"
  by (simp add: get_company_profile_endpoint_def get_company_metrics_endpoint_def
        get_company_financials_endpoint_def get_company_profile_def cached_service_stale
        fetch_fresh_invalid_symbol)

theorem profile_null_unhandled_witness:
  "fst (get_company_profile ''ZZZZ'' ''key''
          (\<lambda>url. Inl (HTTPStatusError 400 ''Invalid symbol.'')) 0 0
          \<lparr>finnhub_cache = (Map.empty :: string \<rightharpoonup> FinnhubCompanyProfile2 cache_entry),
           requests = []\<rparr>) = Inr None
   \<and> get_company_profile_endpoint ''ZZZZ'' None = Inl (AttributeError ''ticker'')"
  using profile_null_unhandled [of "''ZZZZ''"
      "\<lparr>finnhub_cache = (Map.empty :: string \<rightharpoonup> FinnhubCompanyProfile2 cache_entry),
        requests = []\<rparr>" 0
      "\<lambda>url. Inl (HTTPStatusError 400 ''Invalid symbol.'')" "''key''" "''Invalid symbol.''" 0]
  by (simp add: live_entry_def)

end
